theory Spec2Isabelle
  imports Main "HOL-Library.Word"
begin

unbundle bit_operations_syntax

section \<open>Extent map\<close>

text \<open>
  \<^verbatim>\<open>struct extent { uint32_t objnum; uint32_t offset; uint32_t len; }\<close>:
  the three fields are 32-bit unsigned, so arithmetic on them wraps modulo \<open>2^32\<close>.
\<close>

record extent =
  objnum :: "32 word"
  offset :: "32 word"
  len :: "32 word"

text \<open>
  \<^verbatim>\<open>typedef std::map<int64_t,extent> internal_map\<close> is an ordered map with unique
  keys. It is kept as the list of its entries in strictly increasing key order; the type
  \<open>extmap\<close> contains exactly these lists. Keys are \<^verbatim>\<open>int64_t\<close>, whose overflow is
  undefined in C++: keys are mathematical integers here, and the model describes the runs
  in which no key computation leaves the 64-bit range. Mixed expressions such as
  \<^verbatim>\<open>key + val.len\<close> convert the unsigned 32-bit operand to 64 bits first
  (\<open>uint\<close>); an assignment of a 64-bit value to a 32-bit field truncates it (\<open>word_of_int\<close>).
\<close>

type_synonym internal_map = "(int \<times> extent) list"

typedef extmap = "{m :: internal_map. sorted_wrt (<) (map fst m)}"
  by (rule exI [of _ "[]"]) simp

setup_lifting type_definition_extmap

text \<open>\<^verbatim>\<open>the_map[k] = v\<close> on the entry list: overwrite the entry at \<open>k\<close> or insert it in key order.\<close>

fun assign_raw :: "int \<Rightarrow> extent \<Rightarrow> internal_map \<Rightarrow> internal_map" where
  "assign_raw k v [] = [(k, v)]"
| "assign_raw k v ((k', v') # m) =
     (if k < k' then (k, v) # (k', v') # m
      else if k = k' then (k, v) # m
      else (k', v') # assign_raw k v m)"

text \<open>The entries in key order (what iterating from \<^verbatim>\<open>begin()\<close> to \<^verbatim>\<open>end()\<close> visits).\<close>

lift_definition the_map :: "extmap \<Rightarrow> internal_map" is "\<lambda>m. m" .

lift_definition empty_map :: extmap is "[]"
  by simp

lemma keys_assign_raw: "fst ` set (assign_raw k v m) = insert k (fst ` set m)"
  by (induction m) (force split: if_splits)+

lemma sorted_assign_raw:
  "sorted_wrt (<) (map fst m) \<Longrightarrow> sorted_wrt (<) (map fst (assign_raw k v m))"
proof (induction m)
  case Nil
  then show ?case by simp
next
  case (Cons p m)
  obtain k' v' where p: "p = (k', v')" by (cases p)
  from Cons.prems have tl: "sorted_wrt (<) (map fst m)" and hd: "\<forall>x\<in>set m. k' < fst x"
    by (auto simp: p)
  have "\<forall>x\<in>fst ` set (assign_raw k v m). k' < x" if "k' < k"
    using that hd by (auto simp: keys_assign_raw)
  then show ?case using Cons.IH [OF tl] hd tl
    by (auto simp: p)
qed

lift_definition assign :: "int \<Rightarrow> extent \<Rightarrow> extmap \<Rightarrow> extmap" is assign_raw
  by (rule sorted_assign_raw)

text \<open>\<^verbatim>\<open>the_map.erase(k)\<close>.\<close>

lift_definition map_erase :: "int \<Rightarrow> extmap \<Rightarrow> extmap" is "\<lambda>k. filter (\<lambda>p. fst p \<noteq> k)"
  by (simp add: sorted_wrt_filter filter_map comp_def sorted_wrt_map)

lemma the_map_empty [simp]: "the_map empty_map = []"
  by transfer simp

lemma the_map_assign [simp]: "the_map (assign k v m) = assign_raw k v (the_map m)"
  by transfer simp

lemma the_map_erase [simp]:
  "the_map (map_erase k m) = filter (\<lambda>p. fst p \<noteq> k) (the_map m)"
  by transfer simp

lemma sorted_the_map: "sorted_wrt (<) (map fst (the_map m))"
  by transfer simp

text \<open>
  An iterator is the list of the entries from its position to the end of the map, so
  \<^verbatim>\<open>end()\<close> is \<open>[]\<close>, \<^verbatim>\<open>*it\<close> is the head and \<^verbatim>\<open>it++\<close> the tail.
  \<^verbatim>\<open>the_map.lower_bound(ofs)\<close> is the first entry whose key is not below \<open>ofs\<close>;
  \<open>before ofs m\<close> are the entries in front of it, so \<^verbatim>\<open>it != begin()\<close> says that
  \<open>before ofs m\<close> is not empty and \<^verbatim>\<open>it--\<close> moves to its last entry.
\<close>

definition lower_bound :: "int \<Rightarrow> extmap \<Rightarrow> internal_map" where
  "lower_bound ofs m = dropWhile (\<lambda>p. fst p < ofs) (the_map m)"

definition before :: "int \<Rightarrow> extmap \<Rightarrow> internal_map" where
  "before ofs m = takeWhile (\<lambda>p. fst p < ofs) (the_map m)"

text \<open>\<^verbatim>\<open>extmap::lookup\<close>. The result is the returned iterator.\<close>

definition lookup :: "int \<Rightarrow> extmap \<Rightarrow> internal_map" where
  "lookup ofs m =
     (case lower_bound ofs m of
        [] \<Rightarrow> []
      | (base, e) # it \<Rightarrow>
          if base > ofs \<and> before ofs m \<noteq> [] then
            (let (base0, e0) = last (before ofs m)
             in if ofs < base0 + uint (len e0) then (base0, e0) # (base, e) # it
                else (base, e) # it)
          else (base, e) # it)"

text \<open>
  The loop of \<^verbatim>\<open>extmap::update\<close> that erases the entries the new extent covers
  completely. It walks the iterator \<open>it\<close> and returns the map and the iterator it
  stopped at.
\<close>

fun erase_overlapped ::
  "int \<Rightarrow> extent \<Rightarrow> internal_map \<Rightarrow> extmap \<Rightarrow> extmap \<times> internal_map" where
  "erase_overlapped ofs e [] m = (m, [])"
| "erase_overlapped ofs e ((key, val) # it) m =
     (if key \<ge> ofs \<and> key + uint (len val) \<le> ofs + uint (len e)
      then erase_overlapped ofs e it (map_erase key m)
      else (m, (key, val) # it))"

text \<open>The right-hand overlap step of \<^verbatim>\<open>extmap::update\<close>.\<close>

definition trim_right :: "int \<Rightarrow> extent \<Rightarrow> internal_map \<Rightarrow> extmap \<Rightarrow> extmap" where
  "trim_right ofs e it m =
     (case it of
        [] \<Rightarrow> m
      | (key, val) # _ \<Rightarrow>
          if key < ofs + uint (len e) then
            (let new_key = ofs + uint (len e);
                 val1 = val\<lparr>len := len val - word_of_int (new_key - key)\<rparr>;
                 val2 = val1\<lparr>offset := offset val1 + word_of_int (new_key - key)\<rparr>
             in assign new_key val2 (map_erase key m))
          else m)"

text \<open>The bisect and left-hand overlap step of \<^verbatim>\<open>extmap::update\<close>.\<close>

definition trim_left :: "int \<Rightarrow> extent \<Rightarrow> extmap \<Rightarrow> extmap" where
  "trim_left ofs e m =
     (if before ofs m \<noteq> [] then
        (let (key, val) = last (before ofs m)
         in if key < ofs \<and> key + uint (len val) > ofs + uint (len e) then
              (let new_key = ofs + uint (len e);
                   new_len = uint (len val) - (new_key - key);
                   val1 = val\<lparr>len := word_of_int (ofs - key)\<rparr>;
                   m1 = assign key val1 m;
                   val2 = val1\<lparr>offset := offset val1 + word_of_int (new_key - key)\<rparr>;
                   val3 = val2\<lparr>len := word_of_int new_len\<rparr>
               in assign new_key val3 m1)
            else if key < ofs \<and> key + uint (len val) > ofs then
              assign key (val\<lparr>len := word_of_int (ofs - key)\<rparr>) m
            else m)
      else m)"

text \<open>\<^verbatim>\<open>extmap::update\<close>.\<close>

definition update :: "int \<Rightarrow> extent \<Rightarrow> extmap \<Rightarrow> extmap" where
  "update ofs e m =
     (if the_map m = [] then assign ofs e m
      else
        (let (key, val) = last (the_map m)
         in if ofs = key + uint (len val) \<and> offset e = offset val + len val then
              assign key (val\<lparr>len := len val + len e\<rparr>) m
            else if lower_bound ofs m = [] then assign ofs e m
            else
              (let (m1, it) = erase_overlapped ofs e (lower_bound ofs m) m;
                   m2 = trim_right ofs e it m1;
                   m3 = trim_left ofs e m2
               in assign ofs e m3)))"

text \<open>\<^verbatim>\<open>extmap::erase\<close>.\<close>

definition erase :: "int \<Rightarrow> extmap \<Rightarrow> extmap" where
  "erase ofs m = map_erase ofs m"

text \<open>
  The non-overlap invariant of the specification on an entry list: for entries
  \<open>(k1, e1)\<close> and \<open>(k2, e2)\<close> with \<open>k1 < k2\<close>, \<open>k1 + e1.len \<le> k2\<close>.
\<close>

definition non_overlap :: "internal_map \<Rightarrow> bool" where
  "non_overlap m =
     list_all (\<lambda>(k1, e1). list_all (\<lambda>(k2, e2). k2 \<le> k1 \<or> k1 + uint (len e1) \<le> k2) m) m"


subsection \<open>Termination of the truncation loop\<close>


text \<open>The keys of a map, for the proofs below.\<close>

definition key_set :: "extmap \<Rightarrow> int set" where
  "key_set m = fst ` set (the_map m)"

lemma keys_assign: "key_set (assign k v m) = insert k (key_set m)"
  by (simp add: key_set_def keys_assign_raw)

lemma keys_map_erase: "key_set (map_erase k m) = key_set m - {k}"
  by (auto simp: key_set_def)

lemma distinct_the_map: "distinct (map fst (the_map m))"
  using sorted_the_map [of m] by (simp add: strict_sorted_iff)

lemma takeWhile_sorted_filter:
  "sorted_wrt (<) (map fst xs) \<Longrightarrow>
   takeWhile (\<lambda>p. fst p < (n::int)) xs = filter (\<lambda>p. fst p < n) xs"
  by (induction xs) (auto intro!: filter_False [symmetric])

lemma dropWhile_sorted_filter:
  "sorted_wrt (<) (map fst xs) \<Longrightarrow>
   dropWhile (\<lambda>p. fst p < (n::int)) xs = filter (\<lambda>p. n \<le> fst p) xs"
  by (induction xs) (auto intro!: filter_True [symmetric])

lemma before_filter: "before n m = filter (\<lambda>p. fst p < n) (the_map m)"
  unfolding before_def by (rule takeWhile_sorted_filter [OF sorted_the_map])

lemma lower_bound_filter: "lower_bound n m = filter (\<lambda>p. n \<le> fst p) (the_map m)"
  unfolding lower_bound_def by (rule dropWhile_sorted_filter [OF sorted_the_map])

lemma length_lower_bound: "length (lower_bound n m) = card {k \<in> key_set m. n \<le> k}"
proof -
  have d: "distinct (map fst (lower_bound n m))"
    unfolding lower_bound_filter using distinct_the_map [of m] by (simp add: distinct_map_filter)
  have "set (map fst (lower_bound n m)) = {k \<in> key_set m. n \<le> k}"
    unfolding lower_bound_filter key_set_def by auto
  then have "card {k \<in> key_set m. n \<le> k} = length (map fst (lower_bound n m))"
    using distinct_card [OF d] by simp
  then show ?thesis by simp
qed

lemma last_before_in: "before n m \<noteq> [] \<Longrightarrow> last (before n m) \<in> set (the_map m)"
  using last_in_set [of "before n m"] set_takeWhileD [of "last (before n m)"]
  unfolding before_def by blast

lemma last_before_key: "before n m \<noteq> [] \<Longrightarrow> fst (last (before n m)) \<in> key_set m"
  using last_before_in [of n m] by (simp add: key_set_def)

lemma last_the_map_key: "the_map m \<noteq> [] \<Longrightarrow> fst (last (the_map m)) \<in> key_set m"
  by (simp add: key_set_def)

lemma keys_erase_overlapped: "key_set (fst (erase_overlapped ofs e it m)) \<subseteq> key_set m"
proof (induction it arbitrary: m)
  case Nil
  then show ?case by simp
next
  case (Cons p it)
  obtain key val where p: "p = (key, val)" by (cases p)
  show ?case using Cons.IH [of "map_erase key m"]
    by (auto simp: p keys_map_erase)
qed

lemma keys_trim_right:
  "key_set (trim_right ofs e it m) \<subseteq> insert (ofs + uint (len e)) (key_set m)"
  by (auto simp: trim_right_def Let_def keys_assign keys_map_erase split: list.splits)

lemma keys_trim_left:
  "key_set (trim_left ofs e m) \<subseteq> insert (ofs + uint (len e)) (key_set m)"
proof (cases "before ofs m = []")
  case True
  then show ?thesis by (auto simp: trim_left_def)
next
  case False
  obtain key val where kv: "last (before ofs m) = (key, val)" by (cases "last (before ofs m)")
  have "key \<in> key_set m" using last_before_key [OF False] kv by simp
  then show ?thesis using False
    by (auto simp: trim_left_def Let_def kv keys_assign)
qed

lemma keys_update:
  "key_set (update ofs e m) \<subseteq> insert ofs (insert (ofs + uint (len e)) (key_set m))"
proof (cases "the_map m = []")
  case True
  then show ?thesis by (auto simp: update_def keys_assign)
next
  case False
  obtain key val where kv: "last (the_map m) = (key, val)" by (cases "last (the_map m)")
  have key: "key \<in> key_set m" using last_the_map_key [OF False] kv by simp
  obtain m1 it where er: "erase_overlapped ofs e (lower_bound ofs m) m = (m1, it)"
    by (cases "erase_overlapped ofs e (lower_bound ofs m) m")
  have m1: "key_set m1 \<subseteq> key_set m"
    using keys_erase_overlapped [of ofs e "lower_bound ofs m" m] er by simp
  have "key_set (trim_left ofs e (trim_right ofs e it m1))
          \<subseteq> insert (ofs + uint (len e)) (key_set m)"
    using keys_trim_left [of ofs e "trim_right ofs e it m1"] keys_trim_right [of ofs e it m1] m1
    by blast
  then show ?thesis using False key
    by (auto simp: update_def Let_def kv er keys_assign)
qed

lemma assign_raw_in: "(k, v) \<in> set (assign_raw k v m)"
  by (induction m) auto

lemma assign_in: "(k, v) \<in> set (the_map (assign k v m))"
  by (simp add: assign_raw_in)

lemma the_map_unique:
  "(k, v) \<in> set (the_map m) \<Longrightarrow> (k, v') \<in> set (the_map m) \<Longrightarrow> v = v'"
  using distinct_the_map [of m] by (meson eq_key_imp_eq_value)

lemma sorted_last_max:
  "sorted_wrt (<) (map fst xs) \<Longrightarrow> x \<in> set xs \<Longrightarrow> fst x \<le> (fst (last xs) :: int)"
proof (induction xs)
  case Nil
  then show ?case by simp
next
  case (Cons y xs)
  show ?case
  proof (cases "xs = []")
    case True
    with Cons.prems show ?thesis by simp
  next
    case False
    then have l: "last xs \<in> set xs" by simp
    from Cons.prems(1) have "fst y < fst (last xs)" using l by simp
    moreover have "fst x \<le> fst (last xs)" if "x \<in> set xs"
      using Cons.IH that Cons.prems(1) by simp
    ultimately show ?thesis using Cons.prems(2) False by auto
  qed
qed


text \<open>
  Whether the entry in front of \<open>n\<close> reaches beyond \<open>n\<close>. The loop of \<^verbatim>\<open>do_trunc\<close> shortens such an
  entry at most once; this and the number of entries at or beyond \<open>n\<close> bound its length.
\<close>

definition straddles :: "int \<Rightarrow> extmap \<Rightarrow> bool" where
  "straddles n m \<longleftrightarrow>
     before n m \<noteq> [] \<and> n < fst (last (before n m)) + uint (len (snd (last (before n m))))"

lemma the_map_split: "the_map m = before n m @ lower_bound n m"
  by (simp add: before_def lower_bound_def)

lemma sorted_before: "sorted_wrt (<) (map fst (before n m))"
  using sorted_the_map [of m]
  by (simp add: before_filter sorted_wrt_filter filter_map comp_def sorted_wrt_map)

lemma lookup_cases:
  assumes "lookup n m = (ofs, e) # it"
  shows "(n \<le> ofs \<and> (ofs, e) \<in> set (lower_bound n m)) \<or>
         (ofs < n \<and> before n m \<noteq> [] \<and> last (before n m) = (ofs, e) \<and>
          n < ofs + uint (len e) \<and> lower_bound n m \<noteq> [])"
proof (cases "lower_bound n m")
  case Nil
  with assms show ?thesis by (simp add: lookup_def)
next
  case (Cons p r)
  obtain base e1 where p: "p = (base, e1)" by (cases p)
  have "p \<in> set (lower_bound n m)" using Cons by simp
  then have base: "n \<le> base" by (auto simp: lower_bound_filter p)
  obtain base0 e0 where l: "last (before n m) = (base0, e0)" by (cases "last (before n m)")
  have "base0 < n" if "before n m \<noteq> []"
    using last_in_set [OF that] l by (auto simp: before_filter)
  then show ?thesis using assms base Cons
    by (auto simp: lookup_def p l split: if_splits)
qed

lemma erase_step:
  assumes "n \<le> ofs" and "(ofs, e) \<in> set (lower_bound n m)"
  shows "length (lower_bound n (erase ofs m)) < length (lower_bound n m)"
    and "straddles n (erase ofs m) = straddles n m"
proof -
  have k: "ofs \<in> key_set m"
    using assms(2) by (force simp: lower_bound_filter key_set_def)
  have "{k \<in> key_set m - {ofs}. n \<le> k} \<subset> {k \<in> key_set m. n \<le> k}"
    using k assms(1) by auto
  moreover have "finite {k \<in> key_set m. n \<le> k}" by (simp add: key_set_def)
  ultimately show "length (lower_bound n (erase ofs m)) < length (lower_bound n m)"
    by (simp add: length_lower_bound erase_def keys_map_erase psubset_card_mono)
  have "before n (erase ofs m) = before n m"
    using assms(1) by (auto simp: before_filter erase_def intro!: filter_cong)
  then show "straddles n (erase ofs m) = straddles n m"
    by (simp add: straddles_def)
qed

lemma update_assign:
  assumes "the_map m \<noteq> [] \<Longrightarrow>
           ofs \<noteq> fst (last (the_map m)) + uint (len (snd (last (the_map m))))"
  shows "\<exists>x. update ofs e m = assign ofs e x"
proof (cases "the_map m = []")
  case True
  then show ?thesis by (auto simp: update_def)
next
  case False
  obtain key val where kv: "last (the_map m) = (key, val)" by (cases "last (the_map m)")
  have "ofs \<noteq> key + uint (len val)" using assms [OF False] kv by simp
  then show ?thesis using False
    by (auto simp: update_def kv Let_def split: prod.splits)
qed


lemma shorten_step:
  assumes lt: "ofs < n" and ne: "before n m \<noteq> []" and l: "last (before n m) = (ofs, e)"
    and inside: "n < ofs + uint (len e)" and lb: "lower_bound n m \<noteq> []"
  defines "e' \<equiv> e\<lparr>len := word_of_int (n - ofs)\<rparr>"
  shows "length (lower_bound n (update ofs e' m)) \<le> length (lower_bound n m) + 1"
    and "\<not> straddles n (update ofs e' m)"
proof -
  let ?m' = "update ofs e' m"
  have "uint (len e) < 2 ^ 32" using uint_bounded [of "len e"] by simp
  then have len': "uint (len e') = n - ofs"
    using lt inside by (simp add: e'_def uint_word_of_int_eq take_bit_int_eq_self del: of_int_diff)
  have ofs_key: "ofs \<in> key_set m" using last_before_key [OF ne] l by simp
  have sub: "key_set ?m' \<subseteq> insert n (key_set m)"
    using keys_update [of ofs e' m] ofs_key by (auto simp: len')
  \<comment> \<open>the last entry of the map lies at or beyond \<open>n\<close>, so the merge does not fire\<close>
  have nonempty: "the_map m \<noteq> []" using ne the_map_split [of m n] by auto
  have "last (the_map m) = last (lower_bound n m)"
    using lb the_map_split [of m n] by (metis last_appendR)
  then have "last (the_map m) \<in> set (lower_bound n m)" using lb by simp
  then have "n \<le> fst (last (the_map m))" by (auto simp: lower_bound_filter)
  then have "ofs \<noteq> fst (last (the_map m)) + uint (len (snd (last (the_map m))))"
    using lt uint_ge_0 [of "len (snd (last (the_map m)))"] by linarith
  then obtain x where "?m' = assign ofs e' x"
    using update_assign [of m ofs e'] by blast
  then have here: "(ofs, e') \<in> set (the_map ?m')" using assign_in by simp
  \<comment> \<open>at most the key \<open>n\<close> is new at or beyond \<open>n\<close>\<close>
  have "{k \<in> key_set ?m'. n \<le> k} \<subseteq> insert n {k \<in> key_set m. n \<le> k}" using sub by auto
  moreover have fin: "finite (insert n {k \<in> key_set m. n \<le> k})" by (simp add: key_set_def)
  ultimately have "card {k \<in> key_set ?m'. n \<le> k} \<le> card (insert n {k \<in> key_set m. n \<le> k})"
    by (rule card_mono [rotated])
  also have "\<dots> \<le> card {k \<in> key_set m. n \<le> k} + 1"
    by (simp add: card_insert_if key_set_def)
  finally show "length (lower_bound n ?m') \<le> length (lower_bound n m) + 1"
    by (simp add: length_lower_bound)
  \<comment> \<open>the entry in front of \<open>n\<close> is the shortened one, which ends at \<open>n\<close>\<close>
  have in_before: "(ofs, e') \<in> set (before n ?m')" using here lt by (simp add: before_filter)
  then have ne': "before n ?m' \<noteq> []" by auto
  obtain k v where kv: "last (before n ?m') = (k, v)" by (cases "last (before n ?m')")
  have kv_in: "(k, v) \<in> set (before n ?m')" using last_in_set [OF ne'] kv by simp
  then have "k < n" and kv_map: "(k, v) \<in> set (the_map ?m')" by (auto simp: before_filter)
  then have "k \<in> key_set m" using sub by (force simp: key_set_def)
  then obtain v0 where "(k, v0) \<in> set (before n m)"
    using \<open>k < n\<close> by (auto simp: key_set_def before_filter)
  then have "k \<le> ofs" using sorted_last_max [OF sorted_before] l by fastforce
  moreover have "ofs \<le> k" using sorted_last_max [OF sorted_before in_before] kv by simp
  ultimately have "k = ofs" by simp
  then have "v = e'" using the_map_unique [OF kv_map] here by simp
  then show "\<not> straddles n ?m'" using \<open>k = ofs\<close> kv len' by (simp add: straddles_def)
qed

text \<open>
  The loop of \<^verbatim>\<open>do_trunc\<close> on the extent map of the file. It is total: every run of the
  loop ends (the termination proof below).
\<close>

function do_trunc_loop :: "int \<Rightarrow> extmap \<Rightarrow> extmap" where
  "do_trunc_loop new_size m =
     (case lookup new_size m of
        [] \<Rightarrow> m
      | (ofs, e) # _ \<Rightarrow>
          if ofs < new_size then
            do_trunc_loop new_size (update ofs (e\<lparr>len := word_of_int (new_size - ofs)\<rparr>) m)
          else do_trunc_loop new_size (erase ofs m))"
  by pat_completeness auto
termination
proof (relation "measure (\<lambda>(n, m). 2 * length (lower_bound n m) + (if straddles n m then 3 else 0))",
    goal_cases)
  case 1
  show ?case by simp
next
  case (2 new_size m p it ofs e)
  then have lk: "lookup new_size m = (ofs, e) # it" by simp
  from lookup_cases [OF lk] 2(3)
  have c: "before new_size m \<noteq> []" "last (before new_size m) = (ofs, e)"
    "new_size < ofs + uint (len e)" "lower_bound new_size m \<noteq> []"
    by auto
  have "straddles new_size m" using c by (simp add: straddles_def)
  then show ?case
    using shorten_step [OF 2(3) c] by simp
next
  case (3 new_size m p it ofs e)
  then have lk: "lookup new_size m = (ofs, e) # it" by simp
  from lookup_cases [OF lk] 3(3)
  have c: "new_size \<le> ofs" "(ofs, e) \<in> set (lower_bound new_size m)" by auto
  show ?case using erase_step [OF c] by simp
qed

declare do_trunc_loop.simps [simp del]


section \<open>Inodes and the file system state\<close>

record timespec =
  tv_sec :: int
  tv_nsec :: int

datatype obj_type = OBJ_FILE | OBJ_DIR | OBJ_SYMLINK | OBJ_OTHER

text \<open>
  The class an object was created with and the members that class adds to \<^verbatim>\<open>fs_obj\<close>:
  \<^verbatim>\<open>fs_file\<close> has \<^verbatim>\<open>extents\<close>, \<^verbatim>\<open>fs_directory\<close> has \<^verbatim>\<open>dirents\<close>
  (a \<^verbatim>\<open>std::map<std::string,uint32_t>\<close>), \<^verbatim>\<open>fs_link\<close> has \<^verbatim>\<open>target\<close>.
\<close>

datatype obj_class =
    Fs_file extmap
  | Fs_directory "string \<rightharpoonup> 32 word"
  | Fs_link string
  | Fs_obj

text \<open>
  \<^verbatim>\<open>class fs_obj\<close>. The bit-field \<^verbatim>\<open>type\<close> is \<open>otype\<close> and \<^verbatim>\<open>size\<close> is \<open>osize\<close>
  here; \<open>derived\<close> is the class of the object. The code sets \<^verbatim>\<open>type\<close> by hand, so
  the two can differ: \<^verbatim>\<open>create_node\<close> makes an \<^verbatim>\<open>fs_file\<close> of type \<^verbatim>\<open>OBJ_OTHER\<close>.
\<close>

record fs_obj =
  otype :: obj_type
  inum :: "32 word"
  mode :: "32 word"
  uid :: "32 word"
  gid :: "32 word"
  rdev :: "32 word"
  osize :: int
  mtime :: timespec
  derived :: obj_class

text \<open>
  The log records, with the fields of the packed structs in their order:
  \<^verbatim>\<open>log_inode {inum, mode, uid, gid, rdev, mtime}\<close>, \<^verbatim>\<open>log_trunc {inum, new_size}\<close>,
  \<^verbatim>\<open>log_delete {parent, inum, namelen, name}\<close>, \<^verbatim>\<open>log_symlink {inum, len, target}\<close>,
  \<^verbatim>\<open>log_rename {inum, parent1, parent2, name1_len, name2_len, name}\<close>,
  \<^verbatim>\<open>log_data {inum, obj_offset, file_offset, size, len}\<close>,
  \<^verbatim>\<open>log_create {parent_inum, inum, namelen, name}\<close>. \<open>LOG_unknown t\<close> is a record whose
  4-bit type \<open>t\<close> is outside \<^verbatim>\<open>enum log_rec_type\<close>. The byte layout of the records is
  not modelled: the metadata of an object is the sequence of its records.
\<close>

datatype log_record =
    LOG_INODE "32 word" "32 word" "32 word" "32 word" "32 word" timespec
  | LOG_TRUNC "32 word" int
  | LOG_DELETE "32 word" "32 word" "8 word" string
  | LOG_SYMLNK "32 word" "8 word" string
  | LOG_RENAME "32 word" "32 word" "32 word" "8 word" "8 word" string
  | LOG_DATA "32 word" "32 word" int int "32 word"
  | LOG_CREATE "32 word" "32 word" "8 word" string
  | LOG_NULL
  | LOG_unknown nat

text \<open>\<^verbatim>\<open>struct obj_header\<close>; \<open>h_type\<close> is its field \<^verbatim>\<open>type\<close>, \<open>h_index\<close> its \<^verbatim>\<open>this_index\<close>.\<close>

record obj_header =
  magic :: int
  version :: int
  h_type :: int
  hdr_len :: int
  h_index :: int

text \<open>
  What ends an operation other than a return: the exception of \<^verbatim>\<open>write_everything_out\<close>,
  and the undefined behaviours of C++ the code can run into.
\<close>

datatype error =
    Put_failed \<comment> \<open>\<^verbatim>\<open>throw "put failed"\<close>\<close>
  | Null_pointer \<comment> \<open>\<^verbatim>\<open>inode_map[inum]\<close> of a missing key is a null pointer, then dereferenced\<close>
  | Dangling \<comment> \<open>use of a deleted object\<close>
  | Bad_cast \<comment> \<open>a member of a derived class read through a cast the object does not have\<close>
  | Empty_vector \<comment> \<open>\<^verbatim>\<open>pathvec.back()\<close> of an empty vector\<close>
  | Overrun \<comment> \<open>\<^verbatim>\<open>memcpy\<close> outside a buffer or outside the staged data\<close>
  | Iterator_mismatch \<comment> \<open>comparison of iterators of two containers\<close>
  | Uninitialised \<comment> \<open>use of a value that was never written\<close>

text \<open>
  The global variables of the program, and what it sees of its environment. Objects live
  in \<open>heap\<close>, at the addresses \<^verbatim>\<open>new\<close> returned; \<open>inode_map\<close> and \<open>dirty_inodes\<close> hold
  addresses, as the code holds pointers. \<open>meta_log\<close> and \<open>data_log\<close> are the contents of the
  two staging buffers between head and tail, \<open>meta_used\<close> is \<^verbatim>\<open>meta_offset()\<close> and the
  length of \<open>data_log\<close> is \<^verbatim>\<open>data_offset()\<close>. The environment: \<open>clock\<close> is what
  \<^verbatim>\<open>clock_gettime\<close> reads, \<open>ctx_uid\<close> and \<open>ctx_gid\<close> come from \<^verbatim>\<open>fuse_get_context()\<close>;
  the object store is not part of the sources, so \<open>s3_put_ok\<close> is the status its
  \<^verbatim>\<open>s3_put\<close> returns, \<open>s3_get\<close> what a ranged read of object \<open>index\<close> at \<open>offset\<close> of
  \<open>len\<close> bytes delivers (\<open>None\<close> for a failure), and \<open>s3_puts\<close> lists the calls of
  \<^verbatim>\<open>s3_put\<close> made so far; \<open>garbage\<close> is what the fields of an object hold that
  \<^verbatim>\<open>new\<close> has allocated and the code has not yet assigned.
\<close>

record objfs =
  heap :: "nat \<rightharpoonup> fs_obj"
  next_addr :: nat
  inode_map :: "32 word \<rightharpoonup> nat"
  next_inode :: int
  this_index :: int
  meta_log :: "log_record list"
  meta_used :: nat
  data_log :: string
  dirty_inodes :: "nat list"
  data_offsets :: "int \<rightharpoonup> int"
  clock :: timespec
  ctx_uid :: "32 word"
  ctx_gid :: "32 word"
  s3_put_ok :: bool
  s3_get :: "int \<Rightarrow> nat \<Rightarrow> nat \<Rightarrow> string option"
  s3_puts :: "(int \<times> obj_header \<times> log_record list \<times> string) list"
  garbage :: fs_obj

definition meta_log_len :: nat where "meta_log_len = 64 * 1024"
definition data_log_len :: nat where "data_log_len = 2 * 8 * 1024 * 1024"

definition ENOENT :: int where "ENOENT = 2"
definition EIO :: int where "EIO = 5"
definition EEXIST :: int where "EEXIST = 17"
definition ENOTDIR :: int where "ENOTDIR = 20"
definition EISDIR :: int where "EISDIR = 21"
definition EINVAL :: int where "EINVAL = 22"

definition S_IFMT :: "32 word" where "S_IFMT = 0xF000"
definition S_IFDIR :: "32 word" where "S_IFDIR = 0x4000"
definition S_IFREG :: "32 word" where "S_IFREG = 0x8000"
definition S_IFLNK :: "32 word" where "S_IFLNK = 0xA000"
definition OBJFS_MAGIC :: int where "OBJFS_MAGIC = 0x5346424f"
definition UTIME_NOW :: int where "UTIME_NOW = 2 ^ 30 - 1"
definition UTIME_OMIT :: int where "UTIME_OMIT = 2 ^ 30 - 2"

text \<open>Conversions: a \<^verbatim>\<open>size_t\<close> returned as \<^verbatim>\<open>int\<close>, and a 64-bit value read as signed.\<close>

definition to_int :: "nat \<Rightarrow> int" where
  "to_int n = sint (word_of_nat n :: 32 word)"

definition to_off_t :: "int \<Rightarrow> int" where
  "to_off_t v = sint (word_of_int v :: 64 word)"

definition to_size_t :: "int \<Rightarrow> nat" where
  "to_size_t v = unat (word_of_int v :: 64 word)"

text \<open>
  \<^verbatim>\<open>inode_map[inum]\<close> followed by a use of the object: the address and the object, or the
  failure of the dereference.
\<close>

definition obj_at :: "objfs \<Rightarrow> 32 word \<Rightarrow> error + nat \<times> fs_obj" where
  "obj_at s i =
     (case inode_map s i of
        None \<Rightarrow> Inl Null_pointer
      | Some p \<Rightarrow> (case heap s p of None \<Rightarrow> Inl Dangling | Some obj \<Rightarrow> Inr (p, obj)))"

text \<open>\<^verbatim>\<open>new\<close>: the object is stored at a fresh address.\<close>

definition new_obj :: "fs_obj \<Rightarrow> objfs \<Rightarrow> nat \<times> objfs" where
  "new_obj obj s =
     (next_addr s, s\<lparr>heap := (heap s)(next_addr s \<mapsto> obj), next_addr := Suc (next_addr s)\<rparr>)"

definition put_obj :: "nat \<Rightarrow> fs_obj \<Rightarrow> objfs \<Rightarrow> objfs" where
  "put_obj p obj s = s\<lparr>heap := (heap s)(p \<mapsto> obj)\<rparr>"

section \<open>Replay of the log\<close>

text \<open>
  \<^verbatim>\<open>do_trunc\<close>. It uses the member \<^verbatim>\<open>extents\<close>, which only an \<^verbatim>\<open>fs_file\<close> has.
  The assignment \<^verbatim>\<open>e.len = new_size - offset\<close> truncates to 32 bits.
\<close>

definition do_trunc :: "fs_obj \<Rightarrow> int \<Rightarrow> error + fs_obj" where
  "do_trunc f new_size =
     (case derived f of
        Fs_file extents \<Rightarrow>
          Inr (f\<lparr>derived := Fs_file (do_trunc_loop new_size extents), osize := new_size\<rparr>)
      | _ \<Rightarrow> Inl Bad_cast)"

definition update_inode ::
  "fs_obj \<Rightarrow> 32 word \<Rightarrow> 32 word \<Rightarrow> 32 word \<Rightarrow> 32 word \<Rightarrow> 32 word \<Rightarrow> timespec \<Rightarrow> fs_obj" where
  "update_inode obj i m u g r t = obj\<lparr>inum := i, mode := m, uid := u, gid := g, rdev := r, mtime := t\<rparr>"

definition S_ISDIR :: "32 word \<Rightarrow> bool" where "S_ISDIR m \<longleftrightarrow> m AND S_IFMT = S_IFDIR"
definition S_ISREG :: "32 word \<Rightarrow> bool" where "S_ISREG m \<longleftrightarrow> m AND S_IFMT = S_IFREG"
definition S_ISLNK :: "32 word \<Rightarrow> bool" where "S_ISLNK m \<longleftrightarrow> m AND S_IFMT = S_IFLNK"

text \<open>
  The handlers return the \<^verbatim>\<open>int\<close> of the code (0, or -1 for a record that cannot be
  applied) and the new state.
\<close>

definition read_log_inode ::
  "32 word \<Rightarrow> 32 word \<Rightarrow> 32 word \<Rightarrow> 32 word \<Rightarrow> 32 word \<Rightarrow> timespec \<Rightarrow> objfs
     \<Rightarrow> error + int \<times> objfs" where
  "read_log_inode i m u g r t s =
     (case inode_map s i of
        Some p \<Rightarrow>
          (case heap s p of
             None \<Rightarrow> Inl Dangling
           | Some obj \<Rightarrow> Inr (0, put_obj p (update_inode obj i m u g r t) s))
      | None \<Rightarrow>
          (let (ty, cl) =
                 (if S_ISDIR m then (OBJ_DIR, Fs_directory Map.empty)
                  else if S_ISREG m then (OBJ_FILE, Fs_file empty_map)
                  else if S_ISLNK m then (OBJ_SYMLINK, Fs_link [])
                  else (OBJ_OTHER, Fs_obj));
               obj = \<lparr>otype = ty, inum = i, mode = m, uid = u, gid = g, rdev = r, osize = 0,
                      mtime = t, derived = cl\<rparr>;
               (p, s1) = new_obj obj s
           in Inr (0, s1\<lparr>inode_map := (inode_map s1)(i \<mapsto> p)\<rparr>)))"

definition read_log_trunc :: "32 word \<Rightarrow> int \<Rightarrow> objfs \<Rightarrow> error + int \<times> objfs" where
  "read_log_trunc i new_size s =
     (if inode_map s i = None then Inr (-1, s)
      else
        (case obj_at s i of
           Inl err \<Rightarrow> Inl err
         | Inr (p, f) \<Rightarrow>
             if osize f < new_size then Inr (-1, s)
             else (case do_trunc f new_size of
                     Inl err \<Rightarrow> Inl err
                   | Inr f' \<Rightarrow> Inr (0, put_obj p f' s))))"

definition read_log_delete ::
  "32 word \<Rightarrow> 32 word \<Rightarrow> 8 word \<Rightarrow> string \<Rightarrow> objfs \<Rightarrow> error + int \<times> objfs" where
  "read_log_delete parent i namelen name s =
     (if inode_map s parent = None then Inr (-1, s)
      else if inode_map s i = None then Inr (-1, s)
      else
        (case obj_at s parent of
           Inl err \<Rightarrow> Inl err
         | Inr (pp, pobj) \<Rightarrow>
             (case inode_map s i of
                None \<Rightarrow> Inl Null_pointer
              | Some fp \<Rightarrow>
                  (case derived pobj of
                     Fs_directory dirents \<Rightarrow>
                       (let nm = take (unat namelen) name;
                            s1 = s\<lparr>inode_map := (inode_map s)(i := None)\<rparr>;
                            s2 = put_obj pp (pobj\<lparr>derived := Fs_directory (dirents(nm := None))\<rparr>) s1
                        in if heap s2 fp = None then Inl Dangling
                           else Inr (0, s2\<lparr>heap := (heap s2)(fp := None)\<rparr>))
                   | _ \<Rightarrow> Inl Bad_cast))))"

definition read_log_symlink :: "32 word \<Rightarrow> 8 word \<Rightarrow> string \<Rightarrow> objfs \<Rightarrow> error + int \<times> objfs" where
  "read_log_symlink i n target s =
     (if inode_map s i = None then Inr (-1, s)
      else
        (case obj_at s i of
           Inl err \<Rightarrow> Inl err
         | Inr (p, l) \<Rightarrow>
             (case derived l of
                Fs_link _ \<Rightarrow> Inr (0, put_obj p (l\<lparr>derived := Fs_link (take (unat n) target)\<rparr>) s)
              | _ \<Rightarrow> Inl Bad_cast)))"

text \<open>
  \<^verbatim>\<open>read_log_rename\<close>. Its third check compares \<^verbatim>\<open>parent2->dirents.find(name2)\<close> with
  \<^verbatim>\<open>parent1->dirents.end()\<close>, which has a meaning only when both are the same directory.
\<close>

definition read_log_rename ::
  "32 word \<Rightarrow> 32 word \<Rightarrow> 32 word \<Rightarrow> 8 word \<Rightarrow> 8 word \<Rightarrow> string \<Rightarrow> objfs
     \<Rightarrow> error + int \<times> objfs" where
  "read_log_rename i parent1 parent2 name1_len name2_len name s =
     (if inode_map s parent1 = None then Inr (-1, s)
      else if inode_map s parent2 = None then Inr (-1, s)
      else
        (case (obj_at s parent1, obj_at s parent2) of
           (Inl err, _) \<Rightarrow> Inl err
         | (_, Inl err) \<Rightarrow> Inl err
         | (Inr (p1, o1), Inr (p2, o2)) \<Rightarrow>
             (let name1 = take (unat name1_len) name;
                  name2 = take (unat name2_len) (drop (unat name1_len) name)
              in case (derived o1, derived o2) of
                   (Fs_directory d1, Fs_directory d2) \<Rightarrow>
                     if d1 name1 = None then Inr (-1, s)
                     else if d1 name1 \<noteq> Some i then Inr (-1, s)
                     else if p1 \<noteq> p2 then Inl Iterator_mismatch
                     else if d2 name2 \<noteq> None then Inr (-1, s)
                     else Inr (0, put_obj p1
                                 (o1\<lparr>derived := Fs_directory ((d1(name1 := None))(name2 \<mapsto> i))\<rparr>) s)
                 | _ \<Rightarrow> Inl Bad_cast)))"

definition read_log_data ::
  "int \<Rightarrow> 32 word \<Rightarrow> 32 word \<Rightarrow> int \<Rightarrow> int \<Rightarrow> 32 word \<Rightarrow> objfs \<Rightarrow> error + int \<times> objfs" where
  "read_log_data idx i obj_offset file_offset sz n s =
     (if inode_map s i = None then Inr (-1, s)
      else
        (case obj_at s i of
           Inl err \<Rightarrow> Inl err
         | Inr (p, f) \<Rightarrow>
             (case derived f of
                Fs_file extents \<Rightarrow>
                  (let e = \<lparr>objnum = word_of_int idx, offset = obj_offset, len = n\<rparr>
                   in Inr (0, put_obj p
                             (f\<lparr>derived := Fs_file (update file_offset e extents), osize := sz\<rparr>) s))
              | _ \<Rightarrow> Inl Bad_cast)))"

definition read_log_create ::
  "32 word \<Rightarrow> 32 word \<Rightarrow> 8 word \<Rightarrow> string \<Rightarrow> objfs \<Rightarrow> error + int \<times> objfs" where
  "read_log_create parent_inum i namelen name s =
     (if inode_map s parent_inum = None then Inr (-1, s)
      else
        (case obj_at s parent_inum of
           Inl err \<Rightarrow> Inl err
         | Inr (p, d) \<Rightarrow>
             (case derived d of
                Fs_directory dirents \<Rightarrow>
                  (let nm = take (unat namelen) name;
                       s1 = put_obj p (d\<lparr>derived := Fs_directory (dirents(nm \<mapsto> i))\<rparr>) s
                   in Inr (0, s1\<lparr>next_inode := max (next_inode s1) (sint (i + 1))\<rparr>))
              | _ \<Rightarrow> Inl Bad_cast)))"

text \<open>The \<^verbatim>\<open>switch\<close> of \<^verbatim>\<open>read_hdr\<close> on one record: the \<^verbatim>\<open>int\<close> of its handler.\<close>

definition read_record :: "int \<Rightarrow> log_record \<Rightarrow> objfs \<Rightarrow> error + int \<times> objfs" where
  "read_record idx r s =
     (case r of
        LOG_INODE i m u g rd t \<Rightarrow> read_log_inode i m u g rd t s
      | LOG_TRUNC i new_size \<Rightarrow> read_log_trunc i new_size s
      | LOG_DELETE parent i namelen name \<Rightarrow> read_log_delete parent i namelen name s
      | LOG_SYMLNK i n target \<Rightarrow> read_log_symlink i n target s
      | LOG_RENAME i p1 p2 n1 n2 name \<Rightarrow> read_log_rename i p1 p2 n1 n2 name s
      | LOG_DATA i obj_offset file_offset sz n \<Rightarrow> read_log_data idx i obj_offset file_offset sz n s
      | LOG_CREATE parent i namelen name \<Rightarrow> read_log_create parent i namelen name s
      | LOG_NULL \<Rightarrow> Inr (0, s)
      | LOG_unknown t \<Rightarrow> Inr (-1, s))"

text \<open>
  The loop of \<^verbatim>\<open>read_hdr\<close> over the records of the object. The result is the
  \<^verbatim>\<open>size_t\<close> that \<^verbatim>\<open>read_hdr\<close> returns: 0, or \<^verbatim>\<open>(size_t)-1\<close> for bad format.
\<close>

definition bad_format :: nat where
  "bad_format = 2 ^ 64 - 1"

fun read_records :: "int \<Rightarrow> log_record list \<Rightarrow> objfs \<Rightarrow> error + nat \<times> objfs" where
  "read_records idx [] s = Inr (0, s)"
| "read_records idx (r # recs) s =
     (case read_record idx r s of
        Inl err \<Rightarrow> Inl err
      | Inr (rc, s') \<Rightarrow> if rc < 0 then Inr (bad_format, s') else read_records idx recs s')"

text \<open>
  \<^verbatim>\<open>read_hdr(idx, data, len)\<close>, where \<open>data\<close> holds the header \<open>oh\<close> followed by the
  records \<open>recs\<close> that lie before \<^verbatim>\<open>hdr_len\<close>.
\<close>

definition read_hdr ::
  "int \<Rightarrow> obj_header \<Rightarrow> log_record list \<Rightarrow> nat \<Rightarrow> objfs \<Rightarrow> error + nat \<times> objfs" where
  "read_hdr idx oh recs n s =
     (if to_size_t (hdr_len oh) > n then Inr (to_size_t (hdr_len oh), s)
      else if magic oh \<noteq> OBJFS_MAGIC \<or> version oh \<noteq> 1 \<or> h_type oh \<noteq> 1 then Inr (bad_format, s)
      else read_records idx recs s)"

section \<open>Staging buffers and flush\<close>

text \<open>
  \<^verbatim>\<open>make_record\<close> copies \<open>hdrlen\<close> bytes of a record to the tail of the metadata buffer
  (\<^verbatim>\<open>malloc(meta_log_len*2)\<close>) and the data to the tail of the data buffer
  (\<^verbatim>\<open>malloc(data_log_len)\<close>). It checks neither size.
\<close>

definition make_record :: "log_record \<Rightarrow> nat \<Rightarrow> string \<Rightarrow> objfs \<Rightarrow> error + objfs" where
  "make_record r hdrlen dat s =
     (if meta_used s + hdrlen > 2 * meta_log_len \<or> length (data_log s) + length dat > data_log_len
      then Inl Overrun
      else Inr (s\<lparr>meta_log := meta_log s @ [r], meta_used := meta_used s + hdrlen,
                  data_log := data_log s @ dat\<rparr>))"

definition write_inode :: "fs_obj \<Rightarrow> objfs \<Rightarrow> error + objfs" where
  "write_inode f s =
     make_record (LOG_INODE (inum f) (mode f) (uid f) (gid f) (rdev f) (mtime f)) (2 + 36) [] s"

definition write_dirent :: "32 word \<Rightarrow> string \<Rightarrow> 32 word \<Rightarrow> objfs \<Rightarrow> error + objfs" where
  "write_dirent parent_inum leaf i s =
     make_record (LOG_CREATE parent_inum i (word_of_nat (length leaf)) leaf)
       (2 + 9 + length leaf) [] s"

definition do_log_trunc :: "32 word \<Rightarrow> int \<Rightarrow> objfs \<Rightarrow> error + objfs" where
  "do_log_trunc i ofs s = make_record (LOG_TRUNC i ofs) (2 + 12) [] s"

text \<open>
  \<^verbatim>\<open>do_log_rename\<close> copies the second name behind \<^verbatim>\<open>name1_len\<close>, an 8-bit field: for a
  first name of 256 bytes or more the name area is not the two names in a row and keeps
  bytes that were never written.
\<close>

definition do_log_rename ::
  "int \<Rightarrow> int \<Rightarrow> int \<Rightarrow> string \<Rightarrow> string \<Rightarrow> objfs \<Rightarrow> error + objfs" where
  "do_log_rename src_inum src_parent dst_parent src_leaf dst_leaf s =
     (if length src_leaf \<ge> 256 then Inl Uninitialised
      else make_record
             (LOG_RENAME (word_of_int src_inum) (word_of_int src_parent) (word_of_int dst_parent)
                (word_of_nat (length src_leaf)) (word_of_nat (length dst_leaf)) (src_leaf @ dst_leaf))
             (2 + 14 + length src_leaf + length dst_leaf) [] s)"

definition write_symlink :: "int \<Rightarrow> string \<Rightarrow> objfs \<Rightarrow> error + objfs" where
  "write_symlink i target s =
     make_record
       (LOG_SYMLNK (word_of_int i) (word_of_nat (length target))
          (take (length target mod 256) target))
       (2 + 5 + length target) [] s"

text \<open>
  \<^verbatim>\<open>dirty_inodes\<close> is a \<^verbatim>\<open>std::set<fs_obj*>\<close>: the addresses in increasing order,
  each once.
\<close>

definition insert_dirty :: "nat \<Rightarrow> nat list \<Rightarrow> nat list" where
  "insert_dirty p ps = (if p \<in> set ps then ps else insort p ps)"

fun write_dirty :: "nat list \<Rightarrow> objfs \<Rightarrow> error + objfs" where
  "write_dirty [] s = Inr s"
| "write_dirty (p # ps) s =
     (case heap s p of
        None \<Rightarrow> Inl Dangling
      | Some f \<Rightarrow>
          (case write_inode f s of
             Inl err \<Rightarrow> Inl err
           | Inr s' \<Rightarrow> write_dirty ps (s'\<lparr>dirty_inodes := removeAll p (dirty_inodes s')\<rparr>)))"

text \<open>
  \<^verbatim>\<open>write_everything_out\<close>. It calls \<^verbatim>\<open>s3_put\<close> twice with the same object and tests the
  status of the second call.
\<close>

definition write_everything_out :: "objfs \<Rightarrow> error + objfs" where
  "write_everything_out s =
     (case write_dirty (dirty_inodes s) s of
        Inl err \<Rightarrow> Inl err
      | Inr s1 \<Rightarrow>
          (let h = \<lparr>magic = OBJFS_MAGIC, version = 1, h_type = 1,
                    hdr_len = to_int (meta_used s1 + 20), h_index = this_index s1\<rparr>;
               key = this_index s1;
               s2 = s1\<lparr>this_index := this_index s1 + 1\<rparr>;
               obj = (h, meta_log s2, data_log s2);
               s3 = s2\<lparr>s3_puts := s3_puts s2 @ [(key, obj), (key, obj)]\<rparr>
           in if \<not> s3_put_ok s3 then Inl Put_failed
              else Inr (s3\<lparr>meta_log := [], meta_used := 0, data_log := []\<rparr>)))"

definition maybe_write :: "objfs \<Rightarrow> error + objfs" where
  "maybe_write s =
     (if meta_used s > meta_log_len \<or> length (data_log s) > data_log_len
      then write_everything_out s else Inr s)"

text \<open>
  The state in which \<^verbatim>\<open>maybe_write\<close> leaves the staging buffers: neither is beyond
  the length at which it flushes.
\<close>

definition within_limits :: "objfs \<Rightarrow> bool" where
  "within_limits s \<longleftrightarrow> meta_used s \<le> meta_log_len \<and> length (data_log s) \<le> data_log_len"

section \<open>Path resolution\<close>

text \<open>\<^verbatim>\<open>split\<close>: the non-empty pieces of \<open>s\<close> between delimiters; \<open>tok\<close> is the piece being read.\<close>

fun split_from :: "string \<Rightarrow> char \<Rightarrow> string \<Rightarrow> string list" where
  "split_from tok d [] = (if tok = [] then [] else [tok])"
| "split_from tok d (c # cs) =
     (if c = d then (if tok = [] then [] else [tok]) @ split_from [] d cs
      else split_from (tok @ [c]) d cs)"

definition split :: "string \<Rightarrow> char \<Rightarrow> string list" where
  "split s d = split_from [] d s"

text \<open>
  The loop of \<^verbatim>\<open>vec_2_inum\<close> from inode \<open>i\<close>. The result is the \<^verbatim>\<open>int\<close> it returns:
  the inode number converted from \<^verbatim>\<open>uint32_t\<close>, or a negative error number.
\<close>

fun vec_2_inum_from :: "objfs \<Rightarrow> 32 word \<Rightarrow> string list \<Rightarrow> error + int" where
  "vec_2_inum_from s i [] = Inr (sint i)"
| "vec_2_inum_from s i (name # rest) =
     (if inode_map s i = None then Inr (- ENOENT)
      else
        (case obj_at s i of
           Inl err \<Rightarrow> Inl err
         | Inr (p, obj) \<Rightarrow>
             if otype obj \<noteq> OBJ_DIR then Inr (- ENOTDIR)
             else
               (case derived obj of
                  Fs_directory dirents \<Rightarrow>
                    (case dirents name of
                       None \<Rightarrow> Inr (- ENOENT)
                     | Some j \<Rightarrow> vec_2_inum_from s j rest)
                | _ \<Rightarrow> Inl Bad_cast)))"

definition vec_2_inum :: "objfs \<Rightarrow> string list \<Rightarrow> error + int" where
  "vec_2_inum s pathvec = vec_2_inum_from s 1 pathvec"

definition path_2_inum :: "objfs \<Rightarrow> string \<Rightarrow> error + int" where
  "path_2_inum s path = vec_2_inum s (split path CHR ''/'')"

definition path_2_inum2 :: "objfs \<Rightarrow> string \<Rightarrow> error + int \<times> int \<times> string" where
  "path_2_inum2 s path =
     (let pathvec = split path CHR ''/''
      in case vec_2_inum s pathvec of
           Inl err \<Rightarrow> Inl err
         | Inr i \<Rightarrow>
             if pathvec = [] then Inl Empty_vector
             else
               (case vec_2_inum s (butlast pathvec) of
                  Inl err \<Rightarrow> Inl err
                | Inr parent_inum \<Rightarrow> Inr (i, parent_inum, last pathvec)))"

section \<open>Operations\<close>

text \<open>
  Every operation returns the \<^verbatim>\<open>int\<close> of the code and the new state, or the error that
  ended it. \<open>buf\<close> is the memory the caller passed and \<open>n\<close> the length it gave.
\<close>

definition fs_write :: "objfs \<Rightarrow> string \<Rightarrow> string \<Rightarrow> nat \<Rightarrow> int \<Rightarrow> error + int \<times> objfs" where
  "fs_write s path buf n ofs =
     (case path_2_inum s path of
        Inl err \<Rightarrow> Inl err
      | Inr i \<Rightarrow>
          if i < 0 then Inr (i, s)
          else
            (case obj_at s (word_of_int i) of
               Inl err \<Rightarrow> Inl err
             | Inr (p, obj) \<Rightarrow>
                 if otype obj \<noteq> OBJ_FILE then Inr (- EISDIR, s)
                 else
                   (case derived obj of
                      Fs_file extents \<Rightarrow>
                        (let new_size = max (ofs + int n) (osize obj);
                             obj_offset = length (data_log s);
                             r = LOG_DATA (word_of_int i) (word_of_nat obj_offset) ofs new_size
                                   (word_of_nat n)
                         in if length buf < n then Inl Overrun
                            else
                              (case make_record r (2 + 28) (take n buf) s of
                                 Inl err \<Rightarrow> Inl err
                               | Inr s1 \<Rightarrow>
                                   (let e = \<lparr>objnum = word_of_int (this_index s1),
                                             offset = word_of_nat obj_offset, len = word_of_nat n\<rparr>;
                                        s2 = put_obj p (obj\<lparr>derived := Fs_file (update ofs e extents)\<rparr>) s1;
                                        s3 = s2\<lparr>dirty_inodes := insert_dirty p (dirty_inodes s2)\<rparr>
                                    in case maybe_write s3 of
                                         Inl err \<Rightarrow> Inl err
                                       | Inr s4 \<Rightarrow> Inr (to_int n, s4))))
                    | _ \<Rightarrow> Inl Bad_cast)))"

text \<open>
  The part that \<^verbatim>\<open>create_node\<close>, \<^verbatim>\<open>fs_mkdir\<close> and \<^verbatim>\<open>fs_symlink\<close> share after the
  new object \<open>f\<close> is in \<open>inode_map\<close>: enter the name in the parent directory at \<open>dp\<close>.
\<close>

definition add_dirent :: "nat \<Rightarrow> string \<Rightarrow> 32 word \<Rightarrow> objfs \<Rightarrow> error + objfs" where
  "add_dirent dp leaf i s =
     (case heap s dp of
        None \<Rightarrow> Inl Dangling
      | Some dir \<Rightarrow>
          (case derived dir of
             Fs_directory dirents \<Rightarrow>
               Inr (put_obj dp (dir\<lparr>derived := Fs_directory (dirents(leaf \<mapsto> i))\<rparr>) s)
           | _ \<Rightarrow> Inl Bad_cast))"

text \<open>\<^verbatim>\<open>clock_gettime(CLOCK_REALTIME, &obj->mtime); dirty_inodes.insert(obj)\<close> on the object at \<open>p\<close>.\<close>

definition touch :: "nat \<Rightarrow> objfs \<Rightarrow> error + objfs" where
  "touch p s =
     (case heap s p of
        None \<Rightarrow> Inl Dangling
      | Some obj \<Rightarrow>
          Inr ((put_obj p (obj\<lparr>mtime := clock s\<rparr>) s)
                 \<lparr>dirty_inodes := insert_dirty p (dirty_inodes s)\<rparr>))"

definition create_node ::
  "objfs \<Rightarrow> string \<Rightarrow> 32 word \<Rightarrow> obj_type \<Rightarrow> 64 word \<Rightarrow> error + int \<times> objfs" where
  "create_node s path m ty dev =
     (case path_2_inum2 s path of
        Inl err \<Rightarrow> Inl err
      | Inr (i, parent_inum, leaf) \<Rightarrow>
          if i \<ge> 0 then Inr (- EEXIST, s)
          else if parent_inum < 0 then Inr (parent_inum, s)
          else
            (case obj_at s (word_of_int parent_inum) of
               Inl err \<Rightarrow> Inl err
             | Inr (dp, dir) \<Rightarrow>
                 if otype dir \<noteq> OBJ_DIR then Inr (- ENOTDIR, s)
                 else
                   (let i' = next_inode s;
                        s1 = s\<lparr>next_inode := next_inode s + 1\<rparr>;
                        f = (garbage s)\<lparr>derived := Fs_file empty_map, otype := ty,
                              inum := word_of_int i', mode := m, rdev := ucast dev, osize := 0,
                              mtime := clock s, uid := ctx_uid s, gid := ctx_gid s\<rparr>;
                        (fp, s2) = new_obj f s1;
                        s3 = s2\<lparr>inode_map := (inode_map s2)(word_of_int i' \<mapsto> fp)\<rparr>
                    in case add_dirent dp leaf (word_of_int i') s3 of
                         Inl err \<Rightarrow> Inl err
                       | Inr s4 \<Rightarrow>
                           (case write_inode f s4 of
                              Inl err \<Rightarrow> Inl err
                            | Inr s5 \<Rightarrow>
                                (case write_dirent (word_of_int parent_inum) leaf (word_of_int i') s5 of
                                   Inl err \<Rightarrow> Inl err
                                 | Inr s6 \<Rightarrow>
                                     (case touch dp s6 of
                                        Inl err \<Rightarrow> Inl err
                                      | Inr s7 \<Rightarrow>
                                          (case maybe_write s7 of
                                             Inl err \<Rightarrow> Inl err
                                           | Inr s8 \<Rightarrow> Inr (0, s8))))))))"

definition fs_create :: "objfs \<Rightarrow> string \<Rightarrow> 32 word \<Rightarrow> error + int \<times> objfs" where
  "fs_create s path m = create_node s path (m OR S_IFREG) OBJ_FILE 0"

definition fs_mknod :: "objfs \<Rightarrow> string \<Rightarrow> 32 word \<Rightarrow> 64 word \<Rightarrow> error + int \<times> objfs" where
  "fs_mknod s path m dev = create_node s path m OBJ_OTHER dev"

definition fs_mkdir :: "objfs \<Rightarrow> string \<Rightarrow> 32 word \<Rightarrow> error + int \<times> objfs" where
  "fs_mkdir s path m =
     (case path_2_inum2 s path of
        Inl err \<Rightarrow> Inl err
      | Inr (i, parent_inum, leaf) \<Rightarrow>
          if i \<ge> 0 then Inr (- EEXIST, s)
          else if parent_inum < 0 then Inr (parent_inum, s)
          else
            (case obj_at s (word_of_int parent_inum) of
               Inl err \<Rightarrow> Inl err
             | Inr (pp, parent) \<Rightarrow>
                 if otype parent \<noteq> OBJ_DIR then Inr (- ENOTDIR, s)
                 else
                   (let i' = next_inode s;
                        s1 = s\<lparr>next_inode := next_inode s + 1\<rparr>;
                        dir = (garbage s)\<lparr>derived := Fs_directory Map.empty, otype := OBJ_DIR,
                                inum := word_of_int i', mode := m OR S_IFDIR, rdev := 0, osize := 0,
                                mtime := clock s, uid := ctx_uid s, gid := ctx_gid s\<rparr>;
                        (dp, s2) = new_obj dir s1;
                        s3 = s2\<lparr>inode_map := (inode_map s2)(word_of_int i' \<mapsto> dp)\<rparr>
                    in case add_dirent pp leaf (word_of_int i') s3 of
                         Inl err \<Rightarrow> Inl err
                       | Inr s4 \<Rightarrow>
                           (case touch pp s4 of
                              Inl err \<Rightarrow> Inl err
                            | Inr s5 \<Rightarrow>
                                (case write_inode dir s5 of
                                   Inl err \<Rightarrow> Inl err
                                 | Inr s6 \<Rightarrow>
                                     (case write_dirent (word_of_int parent_inum) leaf (word_of_int i') s6 of
                                        Inl err \<Rightarrow> Inl err
                                      | Inr s7 \<Rightarrow>
                                          (case maybe_write s7 of
                                             Inl err \<Rightarrow> Inl err
                                           | Inr s8 \<Rightarrow> Inr (0, s8))))))))"

definition fs_truncate :: "objfs \<Rightarrow> string \<Rightarrow> int \<Rightarrow> error + int \<times> objfs" where
  "fs_truncate s path n =
     (case path_2_inum s path of
        Inl err \<Rightarrow> Inl err
      | Inr i \<Rightarrow>
          if i < 0 then Inr (i, s)
          else
            (case obj_at s (word_of_int i) of
               Inl err \<Rightarrow> Inl err
             | Inr (p, f) \<Rightarrow>
                 if otype f = OBJ_DIR then Inr (- EISDIR, s)
                 else if otype f \<noteq> OBJ_FILE then Inr (- EINVAL, s)
                 else
                   (case do_trunc f n of
                      Inl err \<Rightarrow> Inl err
                    | Inr f' \<Rightarrow>
                        (case do_log_trunc (word_of_int i) n (put_obj p f' s) of
                           Inl err \<Rightarrow> Inl err
                         | Inr s1 \<Rightarrow>
                             (case touch p s1 of
                                Inl err \<Rightarrow> Inl err
                              | Inr s2 \<Rightarrow>
                                  (case maybe_write s2 of
                                     Inl err \<Rightarrow> Inl err
                                   | Inr s3 \<Rightarrow> Inr (0, s3)))))))"

text \<open>
  \<^verbatim>\<open>fs_rename\<close>. Both \<^verbatim>\<open>srcdir\<close> and \<^verbatim>\<open>dstdir\<close> are \<^verbatim>\<open>inode_map[src_parent]\<close>
  in the code, so they are the same object here.
\<close>

definition fs_rename :: "objfs \<Rightarrow> string \<Rightarrow> string \<Rightarrow> error + int \<times> objfs" where
  "fs_rename s src_path dst_path =
     (case path_2_inum2 s src_path of
        Inl err \<Rightarrow> Inl err
      | Inr (src_inum, src_parent, src_leaf) \<Rightarrow>
          if src_inum < 0 then Inr (src_inum, s)
          else
            (case path_2_inum2 s dst_path of
               Inl err \<Rightarrow> Inl err
             | Inr (dst_inum, dst_parent, dst_leaf) \<Rightarrow>
                 if dst_inum \<ge> 0 then Inr (- EEXIST, s)
                 else if dst_parent < 0 then Inr (dst_parent, s)
                 else
                   (case obj_at s (word_of_int src_parent) of
                      Inl err \<Rightarrow> Inl err
                    | Inr (srcdir, dir) \<Rightarrow>
                        (let dstdir = srcdir
                         in if otype dir \<noteq> OBJ_DIR then Inr (- ENOTDIR, s)
                            else
                              (case derived dir of
                                 Fs_directory dirents \<Rightarrow>
                                   (let s1 = put_obj srcdir
                                               (dir\<lparr>derived := Fs_directory (dirents(src_leaf := None))\<rparr>) s
                                    in case touch srcdir s1 of
                                         Inl err \<Rightarrow> Inl err
                                       | Inr s2 \<Rightarrow>
                                           (case add_dirent dstdir dst_leaf (word_of_int src_inum) s2 of
                                              Inl err \<Rightarrow> Inl err
                                            | Inr s3 \<Rightarrow>
                                                (case touch dstdir s3 of
                                                   Inl err \<Rightarrow> Inl err
                                                 | Inr s4 \<Rightarrow>
                                                     (case do_log_rename src_inum src_parent dst_parent
                                                             src_leaf dst_leaf s4 of
                                                        Inl err \<Rightarrow> Inl err
                                                      | Inr s5 \<Rightarrow>
                                                          (case maybe_write s5 of
                                                             Inl err \<Rightarrow> Inl err
                                                           | Inr s6 \<Rightarrow> Inr (0, s6))))))
                               | _ \<Rightarrow> Inl Bad_cast)))))"

text \<open>\<^verbatim>\<open>fs_utimens\<close>; \<open>tv\<close> is \<open>None\<close> for a null pointer, else the two entries of the array.\<close>

definition fs_utimens ::
  "objfs \<Rightarrow> string \<Rightarrow> (timespec \<times> timespec) option \<Rightarrow> error + int \<times> objfs" where
  "fs_utimens s path tv =
     (case path_2_inum s path of
        Inl err \<Rightarrow> Inl err
      | Inr i \<Rightarrow>
          if i < 0 then Inr (i, s)
          else
            (case obj_at s (word_of_int i) of
               Inl err \<Rightarrow> Inl err
             | Inr (p, obj) \<Rightarrow>
                 (let obj' =
                        (case tv of
                           None \<Rightarrow> obj\<lparr>mtime := clock s\<rparr>
                         | Some (tv0, tv1) \<Rightarrow>
                             if tv_nsec tv1 = UTIME_NOW then obj\<lparr>mtime := clock s\<rparr>
                             else if tv_nsec tv1 \<noteq> UTIME_OMIT then obj\<lparr>mtime := tv1\<rparr>
                             else obj);
                      s1 = (put_obj p obj' s)\<lparr>dirty_inodes := insert_dirty p (dirty_inodes s)\<rparr>
                  in case maybe_write s1 of
                       Inl err \<Rightarrow> Inl err
                     | Inr s2 \<Rightarrow> Inr (0, s2))))"

section \<open>Read path\<close>

text \<open>\<^verbatim>\<open>memcpy(buf + pos, src, length src)\<close> into the caller's memory \<open>buf\<close>.\<close>

definition memcpy_to :: "string \<Rightarrow> nat \<Rightarrow> string \<Rightarrow> error + string" where
  "memcpy_to buf pos src =
     (if src = [] then Inr buf
      else if pos + length src > length buf then Inl Overrun
      else Inr (take pos buf @ src @ drop (pos + length src) buf))"

text \<open>\<^verbatim>\<open>do_read\<close>: a ranged read from the object store into \<open>buf\<close> at \<open>pos\<close>.\<close>

definition do_read ::
  "objfs \<Rightarrow> int \<Rightarrow> string \<Rightarrow> nat \<Rightarrow> nat \<Rightarrow> nat \<Rightarrow> error + int \<times> string" where
  "do_read s index buf pos n ofs =
     (case s3_get s index ofs n of
        None \<Rightarrow> Inr (-1, buf)
      | Some bytes \<Rightarrow>
          (case memcpy_to buf pos (take n bytes) of
             Inl err \<Rightarrow> Inl err
           | Inr buf' \<Rightarrow> Inr (to_int n, buf')))"

text \<open>
  \<^verbatim>\<open>get_offset\<close>: the header length of object \<open>index\<close>, from the cache or from the first
  20 bytes of the object, where \<^verbatim>\<open>hdr_len\<close> is the little-endian \<^verbatim>\<open>int32_t\<close> at byte 12.
\<close>

definition le32 :: "string \<Rightarrow> int" where
  "le32 bs = sint (word_of_nat (foldr (\<lambda>c v. of_char c + 256 * v) bs 0) :: 32 word)"

definition get_offset :: "objfs \<Rightarrow> int \<Rightarrow> error + int \<times> objfs" where
  "get_offset s index =
     (case data_offsets s index of
        Some v \<Rightarrow> Inr (v, s)
      | None \<Rightarrow>
          (case s3_get s index 0 20 of
             None \<Rightarrow> Inr (-1, s)
           | Some bytes \<Rightarrow>
               if length bytes < 16 then Inl Uninitialised
               else (let v = le32 (take 4 (drop 12 bytes))
                     in Inr (v, s\<lparr>data_offsets := (data_offsets s)(index \<mapsto> v)\<rparr>))))"

text \<open>
  \<^verbatim>\<open>read_data\<close>. For the object being staged the bytes come from the data buffer; the
  length is cut to \<^verbatim>\<open>data_offset() - offset\<close>, an unsigned difference. For another object
  the test \<^verbatim>\<open>n < 0\<close> on the \<^verbatim>\<open>size_t n\<close> never holds, so a failed \<^verbatim>\<open>get_offset\<close>
  goes on to \<^verbatim>\<open>do_read\<close>.
\<close>

definition read_data ::
  "objfs \<Rightarrow> string \<Rightarrow> nat \<Rightarrow> int \<Rightarrow> int \<Rightarrow> nat \<Rightarrow> error + int \<times> string \<times> objfs" where
  "read_data s buf pos index ofs n =
     (if index = this_index s then
        (let n' = min n (to_size_t (int (length (data_log s)) - ofs))
         in if n' = 0 then Inr (0, buf, s)
            else if ofs < 0 \<or> ofs + int n' > int (length (data_log s)) then Inl Overrun
            else
              (case memcpy_to buf pos (take n' (drop (nat ofs) (data_log s))) of
                 Inl err \<Rightarrow> Inl err
               | Inr buf' \<Rightarrow> Inr (to_int n', buf', s)))
      else
        (case get_offset s index of
           Inl err \<Rightarrow> Inl err
         | Inr (v, s1) \<Rightarrow>
             (case do_read s1 index buf pos n (to_size_t (ofs + int (to_size_t v))) of
                Inl err \<Rightarrow> Inl err
              | Inr (r, buf') \<Rightarrow> Inr (r, buf', s1))))"

text \<open>
  The loop of \<^verbatim>\<open>fs_read\<close> over the iterator \<open>it\<close>; \<open>pos\<close> is how far the pointer
  \<^verbatim>\<open>buf\<close> has moved.
\<close>

fun read_extents ::
  "internal_map \<Rightarrow> nat \<Rightarrow> nat \<Rightarrow> int \<Rightarrow> nat \<Rightarrow> string \<Rightarrow> objfs \<Rightarrow> error + int \<times> string \<times> objfs" where
  "read_extents [] n bytes ofs pos buf s = Inr (to_int bytes, buf, s)"
| "read_extents ((base, e) # it) n bytes ofs pos buf s =
     (if \<not> (n > 0 \<and> n > bytes) then Inr (to_int bytes, buf, s)
      else if base > ofs then
        (let skip = to_size_t (base - ofs);
             skip = (if skip > n then n else skip)
         in read_extents it n (bytes + skip) (ofs + int skip) (pos + skip) buf s)
      else
        (let skip = to_size_t (ofs - base);
             l = to_size_t (uint (len e) - int skip);
             l = (if l > n then n else l)
         in case read_data s buf pos (sint (objnum e)) (to_off_t (uint (offset e) + int skip)) l of
              Inl err \<Rightarrow> Inl err
            | Inr (r, buf', s') \<Rightarrow>
                if r < 0 then Inr (- EIO, buf', s')
                else read_extents it n (bytes + l) (ofs + int l) (pos + l) buf' s'))"

definition fs_read ::
  "objfs \<Rightarrow> string \<Rightarrow> string \<Rightarrow> nat \<Rightarrow> int \<Rightarrow> error + int \<times> string \<times> objfs" where
  "fs_read s path buf n ofs =
     (case path_2_inum s path of
        Inl err \<Rightarrow> Inl err
      | Inr i \<Rightarrow>
          if i < 0 then Inr (i, buf, s)
          else
            (case obj_at s (word_of_int i) of
               Inl err \<Rightarrow> Inl err
             | Inr (p, obj) \<Rightarrow>
                 if otype obj \<noteq> OBJ_FILE then Inr (- ENOTDIR, buf, s)
                 else
                   (case derived obj of
                      Fs_file extents \<Rightarrow> read_extents (lookup ofs extents) n 0 ofs 0 buf s
                    | _ \<Rightarrow> Inl Bad_cast)))"

section \<open>Symbolic links\<close>

text \<open>
  \<^verbatim>\<open>fs_symlink\<close>. The code stores the new object under \<^verbatim>\<open>inode_map[inum]\<close>, where
  \<^verbatim>\<open>inum\<close> is the negative result of the path lookup, sets \<^verbatim>\<open>l->target = leaf\<close> and
  never reads \<^verbatim>\<open>contents\<close>; it assigns neither \<^verbatim>\<open>rdev\<close> nor \<^verbatim>\<open>size\<close>.
\<close>

definition fs_symlink :: "objfs \<Rightarrow> string \<Rightarrow> string \<Rightarrow> error + int \<times> objfs" where
  "fs_symlink s path contents =
     (case path_2_inum2 s path of
        Inl err \<Rightarrow> Inl err
      | Inr (i, parent_inum, leaf) \<Rightarrow>
          if i \<ge> 0 then Inr (- EEXIST, s)
          else if parent_inum < 0 then Inr (parent_inum, s)
          else
            (case obj_at s (word_of_int parent_inum) of
               Inl err \<Rightarrow> Inl err
             | Inr (dp, dir) \<Rightarrow>
                 if otype dir \<noteq> OBJ_DIR then Inr (- ENOTDIR, s)
                 else
                   (let l = (garbage s)\<lparr>derived := Fs_link leaf, otype := OBJ_SYMLINK,
                              inum := word_of_int (next_inode s), mode := S_IFLNK OR 0x1FF,
                              uid := ctx_uid s, gid := ctx_gid s, mtime := clock s\<rparr>;
                        s1 = s\<lparr>next_inode := next_inode s + 1\<rparr>;
                        (lp, s2) = new_obj l s1;
                        s3 = s2\<lparr>inode_map := (inode_map s2)(word_of_int i \<mapsto> lp)\<rparr>
                    in case add_dirent dp leaf (inum l) s3 of
                         Inl err \<Rightarrow> Inl err
                       | Inr s4 \<Rightarrow>
                           (case write_inode l s4 of
                              Inl err \<Rightarrow> Inl err
                            | Inr s5 \<Rightarrow>
                                (case write_symlink i leaf s5 of
                                   Inl err \<Rightarrow> Inl err
                                 | Inr s6 \<Rightarrow>
                                     (case write_dirent (word_of_int parent_inum) leaf (word_of_int i) s6 of
                                        Inl err \<Rightarrow> Inl err
                                      | Inr s7 \<Rightarrow>
                                          (case touch dp s7 of
                                             Inl err \<Rightarrow> Inl err
                                           | Inr s8 \<Rightarrow>
                                               (case maybe_write s8 of
                                                  Inl err \<Rightarrow> Inl err
                                                | Inr s9 \<Rightarrow> Inr (0, s9)))))))))"

text \<open>\<^verbatim>\<open>fs_readlink\<close>: the \<^verbatim>\<open>int\<close> returned and the caller's buffer afterwards.\<close>

definition fs_readlink :: "objfs \<Rightarrow> string \<Rightarrow> string \<Rightarrow> nat \<Rightarrow> error + int \<times> string" where
  "fs_readlink s path buf n =
     (case path_2_inum s path of
        Inl err \<Rightarrow> Inl err
      | Inr i \<Rightarrow>
          if i < 0 then Inr (i, buf)
          else
            (case obj_at s (word_of_int i) of
               Inl err \<Rightarrow> Inl err
             | Inr (p, l) \<Rightarrow>
                 if otype l \<noteq> OBJ_SYMLINK then Inr (- EINVAL, buf)
                 else
                   (case derived l of
                      Fs_link target \<Rightarrow>
                        (let val = min n (length target)
                         in case memcpy_to buf 0 (take val target) of
                              Inl err \<Rightarrow> Inl err
                            | Inr buf' \<Rightarrow> Inr (to_int val, buf'))
                    | _ \<Rightarrow> Inl Bad_cast)))"

section \<open>States of the scenarios\<close>

text \<open>
  A mounted file system whose only inode is the root directory, as the replay of an object
  with the record \<^verbatim>\<open>LOG_INODE {1, S_IFDIR | 0755, ...}\<close> leaves it. The clock reads 1000
  seconds, the staging buffers are empty, the object being staged has index 1, and freshly
  allocated memory holds the bytes \<open>0xCD\<close>.
\<close>

definition t0 :: timespec where "t0 = \<lparr>tv_sec = 0, tv_nsec = 0\<rparr>"
definition t1 :: timespec where "t1 = \<lparr>tv_sec = 1000, tv_nsec = 0\<rparr>"

definition junk :: fs_obj where
  "junk = \<lparr>otype = OBJ_OTHER, inum = 0xCDCDCDCD, mode = 0xCDCDCDCD, uid = 0xCDCDCDCD,
     gid = 0xCDCDCDCD, rdev = 0xCDCDCDCD, osize = - 1, mtime = \<lparr>tv_sec = - 1, tv_nsec = - 1\<rparr>,
     derived = Fs_obj\<rparr>"

definition root_dir :: fs_obj where
  "root_dir = \<lparr>otype = OBJ_DIR, inum = 1, mode = 0x41ED, uid = 0, gid = 0, rdev = 0,
     osize = 0, mtime = t0, derived = Fs_directory Map.empty\<rparr>"

definition unmounted :: objfs where
  "unmounted = \<lparr>heap = Map.empty, next_addr = 1, inode_map = Map.empty, next_inode = 2,
     this_index = 0, meta_log = [], meta_used = 0, data_log = [], dirty_inodes = [],
     data_offsets = Map.empty, clock = t1, ctx_uid = 0, ctx_gid = 0, s3_put_ok = True,
     s3_get = (\<lambda>_ _ _. None), s3_puts = [], garbage = junk\<rparr>"

definition mounted :: objfs where
  "mounted = unmounted\<lparr>heap := [1 \<mapsto> root_dir], next_addr := 2, inode_map := [1 \<mapsto> 1],
     this_index := 1\<rparr>"

text \<open>Scenario 2 of the specification: the file \<open>/a\<close>, created and written twice.\<close>

definition file_a :: "extmap \<Rightarrow> fs_obj" where
  "file_a m = \<lparr>otype = OBJ_FILE, inum = 2, mode = 0x81A4, uid = 0, gid = 0, rdev = 0,
     osize = 0, mtime = t1, derived = Fs_file m\<rparr>"

definition created :: objfs where
  "created = mounted\<lparr>
     heap := [1 \<mapsto> root_dir\<lparr>mtime := t1, derived := Fs_directory [''a'' \<mapsto> 2]\<rparr>,
              2 \<mapsto> file_a empty_map],
     next_addr := 3, inode_map := [1 \<mapsto> 1, 2 \<mapsto> 2], next_inode := 3,
     meta_log := [LOG_INODE 2 0x81A4 0 0 0 t1, LOG_CREATE 1 2 1 ''a''], meta_used := 50,
     dirty_inodes := [1]\<rparr>"

definition written1 :: objfs where
  "written1 = created\<lparr>
     heap := (heap created)(2 \<mapsto> file_a (assign 0 \<lparr>objnum = 1, offset = 0, len = 8\<rparr> empty_map)),
     meta_log := meta_log created @ [LOG_DATA 2 0 0 8 8], meta_used := 80,
     data_log := ''AAAAAAAA'', dirty_inodes := [1, 2]\<rparr>"

definition written2 :: objfs where
  "written2 = written1\<lparr>
     heap := (heap written1)(2 \<mapsto> file_a (assign 3 \<lparr>objnum = 1, offset = 8, len = 2\<rparr>
                (assign 0 \<lparr>objnum = 1, offset = 0, len = 8\<rparr> empty_map))),
     meta_log := meta_log written1 @ [LOG_DATA 2 8 3 5 2], meta_used := 110,
     data_log := ''AAAAAAAAbb''\<rparr>"

text \<open>Scenario 4 of the specification: two directories, a file in the first, and its rename.\<close>

definition dir_obj :: "32 word \<Rightarrow> (string \<rightharpoonup> 32 word) \<Rightarrow> fs_obj" where
  "dir_obj i d = \<lparr>otype = OBJ_DIR, inum = i, mode = 0x41ED, uid = 0, gid = 0, rdev = 0,
     osize = 0, mtime = t1, derived = Fs_directory d\<rparr>"

definition file_x :: fs_obj where
  "file_x = \<lparr>otype = OBJ_FILE, inum = 4, mode = 0x81A4, uid = 0, gid = 0, rdev = 0,
     osize = 0, mtime = t1, derived = Fs_file empty_map\<rparr>"

definition made_d1 :: objfs where
  "made_d1 = mounted\<lparr>
     heap := [1 \<mapsto> dir_obj 1 [''d1'' \<mapsto> 2], 2 \<mapsto> dir_obj 2 Map.empty],
     next_addr := 3, inode_map := [1 \<mapsto> 1, 2 \<mapsto> 2], next_inode := 3,
     meta_log := [LOG_INODE 2 0x41ED 0 0 0 t1, LOG_CREATE 1 2 2 ''d1''], meta_used := 51,
     dirty_inodes := [1]\<rparr>"

definition made_d2 :: objfs where
  "made_d2 = made_d1\<lparr>
     heap := [1 \<mapsto> dir_obj 1 [''d1'' \<mapsto> 2, ''d2'' \<mapsto> 3], 2 \<mapsto> dir_obj 2 Map.empty,
              3 \<mapsto> dir_obj 3 Map.empty],
     next_addr := 4, inode_map := [1 \<mapsto> 1, 2 \<mapsto> 2, 3 \<mapsto> 3], next_inode := 4,
     meta_log := meta_log made_d1 @ [LOG_INODE 3 0x41ED 0 0 0 t1, LOG_CREATE 1 3 2 ''d2''],
     meta_used := 102\<rparr>"

definition created_x :: objfs where
  "created_x = made_d2\<lparr>
     heap := [1 \<mapsto> dir_obj 1 [''d1'' \<mapsto> 2, ''d2'' \<mapsto> 3], 2 \<mapsto> dir_obj 2 [''x'' \<mapsto> 4],
              3 \<mapsto> dir_obj 3 Map.empty, 4 \<mapsto> file_x],
     next_addr := 5, inode_map := [1 \<mapsto> 1, 2 \<mapsto> 2, 3 \<mapsto> 3, 4 \<mapsto> 4], next_inode := 5,
     meta_log := meta_log made_d2 @ [LOG_INODE 4 0x81A4 0 0 0 t1, LOG_CREATE 2 4 1 ''x''],
     meta_used := 152, dirty_inodes := [1, 2]\<rparr>"

definition renamed :: objfs where
  "renamed = created_x\<lparr>
     heap := [1 \<mapsto> dir_obj 1 [''d1'' \<mapsto> 2, ''d2'' \<mapsto> 3], 2 \<mapsto> dir_obj 2 [''y'' \<mapsto> 4],
              3 \<mapsto> dir_obj 3 Map.empty, 4 \<mapsto> file_x],
     meta_log := meta_log created_x @ [LOG_RENAME 4 2 3 1 1 ''xy''], meta_used := 170\<rparr>"

text \<open>
  The state after \<^verbatim>\<open>symlink("/l", "target")\<close> on the mounted file system. The key
  \<open>- 2\<close> of \<open>inode_map\<close> is the 32-bit word \<open>0xFFFFFFFE\<close>, the conversion of \<^verbatim>\<open>-ENOENT\<close>.
\<close>

definition link_l :: fs_obj where
  "link_l = \<lparr>otype = OBJ_SYMLINK, inum = 2, mode = 0xA1FF, uid = 0, gid = 0, rdev = 0xCDCDCDCD,
     osize = - 1, mtime = t1, derived = Fs_link ''l''\<rparr>"

definition linked :: objfs where
  "linked = mounted\<lparr>
     heap := [1 \<mapsto> root_dir\<lparr>mtime := t1, derived := Fs_directory [''l'' \<mapsto> 2]\<rparr>, 2 \<mapsto> link_l],
     next_addr := 3, inode_map := [1 \<mapsto> 1, - 2 \<mapsto> 2], next_inode := 3,
     meta_log := [LOG_INODE 2 0xA1FF 0 0 0xCDCDCDCD t1, LOG_SYMLNK (- 2) 1 ''l'',
                  LOG_CREATE 1 (- 2) 1 ''l''],
     meta_used := 58, dirty_inodes := [1]\<rparr>"

text \<open>
  Two states that replay builds: a file \<open>/b\<close> of 10 bytes in one extent, and a symbolic
  link \<open>/l\<close> to \<open>target\<close>.
\<close>

definition file_b :: fs_obj where
  "file_b = \<lparr>otype = OBJ_FILE, inum = 2, mode = 0x81A4, uid = 0, gid = 0, rdev = 0,
     osize = 10, mtime = t0,
     derived = Fs_file (assign 0 \<lparr>objnum = 1, offset = 0, len = 10\<rparr> empty_map)\<rparr>"

definition with_b :: objfs where
  "with_b = mounted\<lparr>
     heap := [1 \<mapsto> root_dir\<lparr>derived := Fs_directory [''b'' \<mapsto> 2]\<rparr>, 2 \<mapsto> file_b],
     next_addr := 3, inode_map := [1 \<mapsto> 1, 2 \<mapsto> 2], next_inode := 3\<rparr>"

definition truncated_b :: objfs where
  "truncated_b = with_b\<lparr>
     heap := (heap with_b)(2 \<mapsto> file_b\<lparr>osize := 5, mtime := t1\<rparr>),
     meta_log := [LOG_TRUNC 2 5], meta_used := 14, dirty_inodes := [2]\<rparr>"

definition link_ok :: fs_obj where
  "link_ok = \<lparr>otype = OBJ_SYMLINK, inum = 2, mode = 0xA1FF, uid = 0, gid = 0, rdev = 0,
     osize = 0, mtime = t0, derived = Fs_link ''target''\<rparr>"

definition with_link :: objfs where
  "with_link = mounted\<lparr>
     heap := [1 \<mapsto> root_dir\<lparr>derived := Fs_directory [''l'' \<mapsto> 2]\<rparr>, 2 \<mapsto> link_ok],
     next_addr := 3, inode_map := [1 \<mapsto> 1, 2 \<mapsto> 2], next_inode := 3\<rparr>"

section \<open>Evaluation of the scenarios\<close>

lemmas errno_defs = ENOENT_def ENOTDIR_def EEXIST_def EISDIR_def EINVAL_def EIO_def

lemmas path_defs = path_2_inum_def path_2_inum2_def vec_2_inum_def split_def obj_at_def

lemmas staging_defs = make_record_def write_inode_def write_dirent_def do_log_trunc_def
  do_log_rename_def write_symlink_def maybe_write_def meta_log_len_def data_log_len_def
  insert_dirty_def touch_def add_dirent_def new_obj_def put_obj_def

lemmas replay_defs = read_record_def read_log_inode_def read_log_trunc_def read_log_symlink_def
  read_log_data_def read_log_create_def update_inode_def S_ISDIR_def S_ISREG_def S_ISLNK_def
  S_IFMT_def S_IFDIR_def S_IFREG_def S_IFLNK_def

lemmas state_defs = mounted_def unmounted_def root_dir_def junk_def t0_def t1_def fun_upd_twist

lemmas write_defs = written2_def written1_def created_def file_a_def

lemmas rename_defs = renamed_def created_x_def made_d2_def made_d1_def dir_obj_def file_x_def

lemma mount_root:
  "read_hdr 0 \<lparr>magic = OBJFS_MAGIC, version = 1, h_type = 1, hdr_len = 58, h_index = 0\<rparr>
     [LOG_INODE 1 0x41ED 0 0 0 t0] 58 unmounted
   = Inr (0, mounted\<lparr>this_index := 0\<rparr>)"
  by (simp add: read_hdr_def to_size_t_def replay_defs new_obj_def state_defs)

lemma replay_b:
  "read_records 1 [LOG_INODE 2 0x81A4 0 0 0 t0, LOG_CREATE 1 2 1 ''b'', LOG_DATA 2 0 0 10 10] mounted
   = Inr (0, with_b)"
  by (simp add: replay_defs obj_at_def new_obj_def put_obj_def update_def with_b_def file_b_def
      state_defs)

lemma replay_link:
  "read_records 1 [LOG_INODE 2 0xA1FF 0 0 0 t0, LOG_SYMLNK 2 6 ''target'', LOG_CREATE 1 2 1 ''l'']
     mounted
   = Inr (0, with_link)"
  by (simp add: replay_defs obj_at_def new_obj_def put_obj_def with_link_def link_ok_def state_defs)

lemma create_a: "fs_create mounted ''/a'' 0x1A4 = Inr (0, created)"
  by (simp add: fs_create_def create_node_def path_defs errno_defs staging_defs S_IFREG_def
      write_defs state_defs)

lemma write_a1: "fs_write created ''/a'' ''AAAAAAAA'' 8 0 = Inr (8, written1)"
  by (simp add: fs_write_def path_defs errno_defs staging_defs update_def to_int_def
      write_defs state_defs)

lemma write_a2: "fs_write written1 ''/a'' ''bb'' 2 3 = Inr (2, written2)"
  by (simp add: fs_write_def path_defs errno_defs staging_defs update_def lower_bound_def to_int_def
      write_defs state_defs)

lemma read_a: "fs_read written2 ''/a'' ''........'' 8 0 = Inr (8, ''AAAAAAAA'', written2)"
  by (simp add: fs_read_def read_data_def memcpy_to_def lookup_def lower_bound_def before_def
      path_defs errno_defs to_int_def to_size_t_def to_off_t_def write_defs state_defs)

lemma mkdir_d1: "fs_mkdir mounted ''/d1'' 0x1ED = Inr (0, made_d1)"
  by (simp add: fs_mkdir_def path_defs errno_defs staging_defs S_IFDIR_def rename_defs state_defs)

lemma mkdir_d2: "fs_mkdir made_d1 ''/d2'' 0x1ED = Inr (0, made_d2)"
  by (simp add: fs_mkdir_def path_defs errno_defs staging_defs S_IFDIR_def rename_defs state_defs)

lemma create_x: "fs_create made_d2 ''/d1/x'' 0x1A4 = Inr (0, created_x)"
  by (simp add: fs_create_def create_node_def path_defs errno_defs staging_defs S_IFREG_def
      rename_defs state_defs)

lemma rename_x: "fs_rename created_x ''/d1/x'' ''/d2/y'' = Inr (0, renamed)"
  by (simp add: fs_rename_def path_defs errno_defs staging_defs rename_defs state_defs)

lemma resolve_x: "path_2_inum created_x ''/d1/x'' = Inr 4"
  by (simp add: path_defs errno_defs rename_defs state_defs)

lemma resolve_renamed:
  "path_2_inum renamed ''/d1/x'' = Inr (- ENOENT) \<and>
   path_2_inum renamed ''/d2/y'' = Inr (- ENOENT) \<and>
   path_2_inum renamed ''/d1/y'' = Inr 4"
  by (simp add: path_defs errno_defs rename_defs state_defs)

lemma symlink_l: "fs_symlink mounted ''/l'' ''target'' = Inr (0, linked)"
  by (simp add: fs_symlink_def path_defs errno_defs staging_defs S_IFLNK_def
      linked_def link_l_def state_defs)

lemma readlink_l:
  "path_2_inum linked ''/l'' = Inr 2 \<and>
   fs_readlink linked ''/l'' ''..........'' 10 = Inl Null_pointer"
  by (simp add: fs_readlink_def path_defs errno_defs linked_def link_l_def state_defs)

lemma trunc_b: "do_trunc file_b 5 = Inr (file_b\<lparr>osize := 5\<rparr>)"
  by (simp add: do_trunc_def do_trunc_loop.simps lookup_def lower_bound_def file_b_def)

lemma truncate_b: "fs_truncate with_b ''/b'' 5 = Inr (0, truncated_b)"
  by (simp add: fs_truncate_def trunc_b path_defs errno_defs staging_defs
      truncated_b_def with_b_def state_defs)
    (simp add: file_b_def)

section \<open>Lemmas for the claims\<close>

lemma set_insert_dirty: "set (insert_dirty p ps) = insert p (set ps)"
  by (auto simp: insert_dirty_def set_insort_key)

text \<open>
  Every operation that returns leaves the staging buffers within the limits, and replay
  does not touch them: an operation never starts with a flush pending.
\<close>

lemma maybe_write_limits: "maybe_write s = Inr s' \<Longrightarrow> within_limits s'"
  by (auto simp: maybe_write_def write_everything_out_def within_limits_def Let_def
      split: if_splits sum.splits)

lemma unmounted_limits: "within_limits unmounted"
  by (simp add: within_limits_def unmounted_def)

lemma read_record_limits:
  "read_record idx r s = Inr (rc, s') \<Longrightarrow> within_limits s \<Longrightarrow> within_limits s'"
  by (cases r)
    (auto simp: read_record_def read_log_inode_def read_log_trunc_def read_log_delete_def
      read_log_symlink_def read_log_rename_def read_log_data_def read_log_create_def
      within_limits_def put_obj_def new_obj_def Let_def
      split: if_splits sum.splits option.splits prod.splits obj_class.splits)

lemma read_records_limits:
  "read_records idx recs s = Inr (rc, s') \<Longrightarrow> within_limits s \<Longrightarrow> within_limits s'"
proof (induction recs arbitrary: s)
  case Nil
  then show ?case by simp
next
  case (Cons r recs)
  then show ?case
    by (auto split: sum.splits prod.splits if_splits dest: read_record_limits)
qed

lemma write_limits:
  "fs_write s path buf n ofs = Inr (r, s') \<Longrightarrow> within_limits s \<Longrightarrow> within_limits s'"
  by (auto simp: fs_write_def Let_def dest: maybe_write_limits
      split: sum.splits if_splits prod.splits obj_class.splits)

lemma create_node_limits:
  "create_node s path m ty dev = Inr (r, s') \<Longrightarrow> within_limits s \<Longrightarrow> within_limits s'"
  by (auto simp: create_node_def Let_def dest: maybe_write_limits
      split: sum.splits if_splits prod.splits)

lemma mkdir_limits:
  "fs_mkdir s path m = Inr (r, s') \<Longrightarrow> within_limits s \<Longrightarrow> within_limits s'"
  by (auto simp: fs_mkdir_def Let_def dest: maybe_write_limits
      split: sum.splits if_splits prod.splits)

lemma truncate_limits:
  "fs_truncate s path n = Inr (r, s') \<Longrightarrow> within_limits s \<Longrightarrow> within_limits s'"
  by (auto simp: fs_truncate_def Let_def dest: maybe_write_limits
      split: sum.splits if_splits prod.splits)

lemma rename_limits:
  "fs_rename s src dst = Inr (r, s') \<Longrightarrow> within_limits s \<Longrightarrow> within_limits s'"
  by (auto simp: fs_rename_def Let_def dest: maybe_write_limits
      split: sum.splits if_splits prod.splits obj_class.splits)

lemma utimens_limits:
  "fs_utimens s path tv = Inr (r, s') \<Longrightarrow> within_limits s \<Longrightarrow> within_limits s'"
  by (auto simp: fs_utimens_def Let_def dest: maybe_write_limits
      split: sum.splits if_splits prod.splits)

lemma symlink_limits:
  "fs_symlink s path contents = Inr (r, s') \<Longrightarrow> within_limits s \<Longrightarrow> within_limits s'"
  by (auto simp: fs_symlink_def Let_def dest: maybe_write_limits
      split: sum.splits if_splits prod.splits)

lemma erase_non_overlap: "non_overlap (the_map m) \<Longrightarrow> non_overlap (the_map (erase k m))"
  by (auto simp: non_overlap_def erase_def list_all_iff)

lemma to_int_small: "k < 2 ^ 31 \<Longrightarrow> to_int k = int k"
proof -
  assume "k < 2 ^ 31"
  then have "sint (word_of_nat k :: 32 word) = int k"
    by (simp add: signed_of_nat signed_take_bit_int_eq_self)
  then show ?thesis by (simp add: to_int_def)
qed

lemma read_records_append:
  "read_records idx (pre @ rest) s0 =
     (case read_records idx pre s0 of
        Inl err \<Rightarrow> Inl err
      | Inr (r, s) \<Rightarrow> if r = 0 then read_records idx rest s else Inr (r, s))"
proof (induction pre arbitrary: s0)
  case Nil
  then show ?case by simp
next
  case (Cons a pre)
  then show ?case by (simp add: bad_format_def split: sum.splits prod.splits)
qed

section \<open>Claims\<close>

subsection \<open>Extent map\<close>

text \<open>
  Claim C1 (scenario 2: after \<^verbatim>\<open>write("/a", "AAAAAAAA", 8, 0)\<close> and
  \<^verbatim>\<open>write("/a", "bb", 2, 3)\<close> on the new file \<open>/a\<close> the extent map has the two entries
  at 0 and 5, and \<^verbatim>\<open>read("/a", 8, 0)\<close> returns \<open>AAAbbAAA\<close>). In the code the second
  \<^verbatim>\<open>update\<close> finds no entry at or beyond offset 3 and returns at
  \<^verbatim>\<open>// we're at the the end of the list\<close>: the first extent keeps its 8 bytes, the second
  is entered at offset 3, and the read takes all 8 bytes from the first extent.
\<close>

theorem overwrite_is_not_spliced:
  "fs_create mounted ''/a'' 0x1A4 = Inr (0, created) \<and>
   fs_write created ''/a'' ''AAAAAAAA'' 8 0 = Inr (8, written1) \<and>
   fs_write written1 ''/a'' ''bb'' 2 3 = Inr (2, written2) \<and>
   map_option derived (heap written2 2) =
     Some (Fs_file (assign 3 \<lparr>objnum = 1, offset = 8, len = 2\<rparr>
                     (assign 0 \<lparr>objnum = 1, offset = 0, len = 8\<rparr> empty_map))) \<and>
   the_map (assign 3 \<lparr>objnum = 1, offset = 8, len = 2\<rparr>
              (assign 0 \<lparr>objnum = 1, offset = 0, len = 8\<rparr> empty_map))
     = [(0, \<lparr>objnum = 1, offset = 0, len = 8\<rparr>), (3, \<lparr>objnum = 1, offset = 8, len = 2\<rparr>)] \<and>
   fs_read written2 ''/a'' ''........'' 8 0 = Inr (8, ''AAAAAAAA'', written2)"
  by (simp add: create_a write_a1 write_a2 read_a) (simp add: write_defs)

text \<open>
  Claim C2 (non-overlap after every \<^verbatim>\<open>update\<close> and \<^verbatim>\<open>erase\<close>). The code breaks it:
  when no entry has a key at or beyond the new offset, \<^verbatim>\<open>update\<close> returns at
  \<^verbatim>\<open>// we're at the the end of the list\<close>, before the steps that bisect or trim the entry in
  front. On the map \<open>{0 \<mapsto> (obj 0, offset 0, len 10)}\<close>, which satisfies the invariant,
  \<^verbatim>\<open>update(5, {0, 100, 2})\<close> leaves the entry \<open>[0, 10)\<close> whole and adds \<open>[5, 7)\<close>.
\<close>

theorem update_breaks_non_overlap:
  "non_overlap (the_map (assign 0 \<lparr>objnum = 0, offset = 0, len = 10\<rparr> empty_map)) \<and>
   the_map (update 5 \<lparr>objnum = 0, offset = 100, len = 2\<rparr>
              (assign 0 \<lparr>objnum = 0, offset = 0, len = 10\<rparr> empty_map))
     = [(0, \<lparr>objnum = 0, offset = 0, len = 10\<rparr>), (5, \<lparr>objnum = 0, offset = 100, len = 2\<rparr>)] \<and>
   \<not> non_overlap (the_map (update 5 \<lparr>objnum = 0, offset = 100, len = 2\<rparr>
              (assign 0 \<lparr>objnum = 0, offset = 0, len = 10\<rparr> empty_map)))"
  by (simp add: update_def lower_bound_def non_overlap_def)

text \<open>
  Claim C3 (\<^verbatim>\<open>lookup\<close> returns the entry containing the offset, else the next entry, else
  end). The code breaks its own comment: when \<^verbatim>\<open>lower_bound\<close> is \<^verbatim>\<open>end()\<close> it returns
  \<^verbatim>\<open>end()\<close> without looking at the entry in front. On the map
  \<open>{0 \<mapsto> (obj 0, offset 0, len 10)}\<close> the offset 5 lies in \<open>[0, 10)\<close>, and
  \<^verbatim>\<open>lookup(5)\<close> is \<^verbatim>\<open>end()\<close>.
\<close>

theorem lookup_misses_last_extent:
  "lookup 5 (assign 0 \<lparr>objnum = 0, offset = 0, len = 10\<rparr> empty_map) = []"
  by (simp add: lookup_def lower_bound_def)

text \<open>
  Claim C7 (the tail-append merge fires only for extents of the same object). The code
  compares the file offset and the object offset and never the object number: the extent
  \<open>(obj 2, offset 4, len 4)\<close> written at file offset 4 is merged into the entry
  \<open>0 \<mapsto> (obj 1, offset 0, len 4)\<close> of another object, and the bytes \<open>[4, 8)\<close> of the file
  are then read from object 1.
\<close>

theorem update_merges_across_objects:
  "the_map (update 4 \<lparr>objnum = 2, offset = 4, len = 4\<rparr>
              (assign 0 \<lparr>objnum = 1, offset = 0, len = 4\<rparr> empty_map))
     = [(0, \<lparr>objnum = 1, offset = 0, len = 8\<rparr>)]"
  by (simp add: update_def)

subsection \<open>Truncation\<close>

text \<open>
  Claim C4 (after the in-memory truncate to a size not above the current one, every extent
  lies within the new size). The file \<open>/b\<close> has 10 bytes in the single extent \<open>[0, 10)\<close>.
  \<^verbatim>\<open>do_trunc\<close> to 5 asks \<^verbatim>\<open>lookup(5)\<close>, which is \<^verbatim>\<open>end()\<close> (the defect of claim C3), and
  the loop ends at once: the size becomes 5 and the extent still covers \<open>[0, 10)\<close>.
\<close>

theorem truncate_keeps_last_extent:
  "osize file_b = 10 \<and>
   derived file_b = Fs_file (assign 0 \<lparr>objnum = 1, offset = 0, len = 10\<rparr> empty_map) \<and>
   do_trunc file_b 5 = Inr (file_b\<lparr>osize := 5\<rparr>) \<and>
   fs_truncate with_b ''/b'' 5 = Inr (0, truncated_b) \<and>
   heap truncated_b 2 = Some (file_b\<lparr>osize := 5, mtime := t1\<rparr>)"
  by (simp add: trunc_b truncate_b) (simp add: file_b_def truncated_b_def)

text \<open>
  Claim C8 (replay of a \<^verbatim>\<open>TRUNC\<close> record). Let the header of the object be valid, let the
  records \<open>pre\<close> in front of the \<^verbatim>\<open>TRUNC\<close> record have been applied and have led to the
  state \<open>s\<close>, and let the record name a file \<open>f\<close>. If its \<^verbatim>\<open>new_size\<close> is above the size
  of \<open>f\<close>, \<^verbatim>\<open>read_hdr\<close> returns bad format and applies none of the records \<open>recs\<close>
  behind it. Otherwise the file becomes what \<^verbatim>\<open>do_trunc\<close> makes of it, and \<^verbatim>\<open>read_hdr\<close>
  goes on with \<open>recs\<close>.
\<close>

theorem replay_trunc:
  assumes "to_size_t (hdr_len oh) \<le> n" and "magic oh = OBJFS_MAGIC" and "version oh = 1"
    and "h_type oh = 1"
    and "read_records idx pre s0 = Inr (0, s)"
    and "inode_map s i = Some p" and "heap s p = Some f" and "derived f = Fs_file extents"
  shows "do_trunc f new_size =
           Inr (f\<lparr>derived := Fs_file (do_trunc_loop new_size extents), osize := new_size\<rparr>) \<and>
         read_hdr idx oh (pre @ LOG_TRUNC i new_size # recs) n s0 =
           (if osize f < new_size then Inr (bad_format, s)
            else read_records idx recs
                   (put_obj p (f\<lparr>derived := Fs_file (do_trunc_loop new_size extents),
                                 osize := new_size\<rparr>) s))"
  using assms
  by (simp add: read_hdr_def read_records_append read_record_def read_log_trunc_def obj_at_def
      do_trunc_def)

theorem replay_trunc_witness:
  "read_hdr 1 \<lparr>magic = OBJFS_MAGIC, version = 1, h_type = 1, hdr_len = 38, h_index = 1\<rparr>
     ([LOG_NULL] @ LOG_TRUNC 2 11 # [LOG_NULL]) 38 with_b = Inr (bad_format, with_b) \<and>
   read_hdr 1 \<lparr>magic = OBJFS_MAGIC, version = 1, h_type = 1, hdr_len = 38, h_index = 1\<rparr>
     ([LOG_NULL] @ LOG_TRUNC 2 5 # [LOG_NULL]) 38 with_b
     = Inr (0, put_obj 2 (file_b\<lparr>osize := 5\<rparr>) with_b)"
proof -
  let ?oh = "\<lparr>magic = OBJFS_MAGIC, version = 1, h_type = 1, hdr_len = 38, h_index = 1\<rparr>"
  let ?m = "assign 0 \<lparr>objnum = 1, offset = 0, len = 10\<rparr> empty_map"
  have h: "to_size_t (hdr_len ?oh) \<le> 38" "magic ?oh = OBJFS_MAGIC" "version ?oh = 1"
    "h_type ?oh = 1"
    by (simp_all add: to_size_t_def)
  have pre: "read_records 1 [LOG_NULL] with_b = Inr (0, with_b)"
    by (simp add: read_record_def)
  have ino: "inode_map with_b 2 = Some 2" "heap with_b 2 = Some file_b" "derived file_b = Fs_file ?m"
    by (simp_all add: with_b_def file_b_def state_defs)
  have loop: "do_trunc_loop 5 ?m = ?m"
    by (simp add: do_trunc_loop.simps lookup_def lower_bound_def)
  have same: "file_b\<lparr>derived := Fs_file ?m, osize := 5\<rparr> = file_b\<lparr>osize := 5\<rparr>"
    by (simp add: file_b_def)
  from replay_trunc [OF h pre ino, of 11 "[LOG_NULL]"] replay_trunc [OF h pre ino, of 5 "[LOG_NULL]"]
  show ?thesis
    by (simp add: loop same read_record_def) (simp add: file_b_def)
qed

subsection \<open>Rename\<close>

text \<open>
  Claim C5 (after a successful \<^verbatim>\<open>rename\<close> the source is gone and the destination resolves
  to its inode; a rename across directories enters the name in the destination's parent).
  Scenario 4 on the code: \<^verbatim>\<open>fs_rename\<close> takes both \<^verbatim>\<open>srcdir\<close> and \<^verbatim>\<open>dstdir\<close> from
  \<^verbatim>\<open>inode_map[src_parent]\<close>, so the name \<open>y\<close> is entered in \<open>/d1\<close>: \<open>/d2/y\<close> does
  not resolve and \<open>/d1/y\<close> does. The \<^verbatim>\<open>LOG_RENAME\<close> record it writes names the parents
  2 and 3.
\<close>

theorem rename_stays_in_source_directory:
  "fs_mkdir mounted ''/d1'' 0x1ED = Inr (0, made_d1) \<and>
   fs_mkdir made_d1 ''/d2'' 0x1ED = Inr (0, made_d2) \<and>
   fs_create made_d2 ''/d1/x'' 0x1A4 = Inr (0, created_x) \<and>
   path_2_inum created_x ''/d1/x'' = Inr 4 \<and>
   fs_rename created_x ''/d1/x'' ''/d2/y'' = Inr (0, renamed) \<and>
   path_2_inum renamed ''/d1/x'' = Inr (- ENOENT) \<and>
   path_2_inum renamed ''/d2/y'' = Inr (- ENOENT) \<and>
   path_2_inum renamed ''/d1/y'' = Inr 4 \<and>
   last (meta_log renamed) = LOG_RENAME 4 2 3 1 1 ''xy''"
  by (simp add: mkdir_d1 mkdir_d2 create_x resolve_x rename_x resolve_renamed)
    (simp add: renamed_def)

subsection \<open>Symbolic links\<close>

text \<open>
  Claim C6 (\<^verbatim>\<open>symlink(path, contents)\<close> installs the new inode under its number, with
  \<^verbatim>\<open>contents\<close> as target, so that \<^verbatim>\<open>readlink\<close> returns \<^verbatim>\<open>contents\<close>). On the code,
  \<^verbatim>\<open>symlink("/l", "target")\<close> returns 0; the new inode has number 2 and mode
  \<^verbatim>\<open>S_IFLNK | 0777\<close>, but it is stored in \<open>inode_map\<close> under \<^verbatim>\<open>(uint32_t)-ENOENT\<close>, and
  nothing is stored under 2; its target is the name \<open>l\<close>, not \<open>target\<close>. The directory
  entry \<open>l\<close> leads to inode 2, so \<^verbatim>\<open>readlink("/l")\<close> dereferences the null pointer that
  \<^verbatim>\<open>inode_map[2]\<close> yields.
\<close>

theorem symlink_is_misfiled:
  "fs_symlink mounted ''/l'' ''target'' = Inr (0, linked) \<and>
   inode_map linked 2 = None \<and>
   inode_map linked (word_of_int (- ENOENT)) = Some 2 \<and>
   heap linked 2 = Some link_l \<and>
   inum link_l = 2 \<and> mode link_l = (S_IFLNK OR 0x1FF) \<and> derived link_l = Fs_link ''l'' \<and>
   path_2_inum linked ''/l'' = Inr 2 \<and>
   fs_readlink linked ''/l'' ''..........'' 10 = Inl Null_pointer"
  by (simp add: symlink_l readlink_l)
    (simp add: linked_def link_l_def state_defs ENOENT_def S_IFLNK_def)

text \<open>
  Claim C10 (\<^verbatim>\<open>readlink\<close>). Let the path resolve to an inode \<open>l\<close> and let the caller's
  buffer hold at least \<open>n\<close> bytes. If \<open>l\<close> is a symbolic link with a target shorter than
  \<open>2^31\<close> bytes, \<^verbatim>\<open>fs_readlink\<close> returns the smaller of \<open>n\<close> and the length of the
  target, the buffer starts with that many bytes of the target, and the rest of the buffer
  is as it was: no terminator is written. If \<open>l\<close> is not of type \<^verbatim>\<open>OBJ_SYMLINK\<close>, the
  result is \<^verbatim>\<open>-EINVAL\<close> and the buffer is as it was.
\<close>

theorem readlink_copies:
  assumes "path_2_inum s path = Inr i" and "0 \<le> i"
    and "inode_map s (word_of_int i) = Some p" and "heap s p = Some l"
    and "n \<le> length buf"
  shows "(otype l = OBJ_SYMLINK \<and> derived l = Fs_link target \<and> length target < 2 ^ 31 \<longrightarrow>
            fs_readlink s path buf n =
              Inr (int (min n (length target)),
                   take (min n (length target)) target @ drop (min n (length target)) buf)) \<and>
         (otype l \<noteq> OBJ_SYMLINK \<longrightarrow> fs_readlink s path buf n = Inr (- EINVAL, buf))"
  using assms
  by (auto simp: fs_readlink_def obj_at_def memcpy_to_def to_int_small min_def Let_def)

theorem readlink_copies_witness:
  "fs_readlink with_link ''/l'' ''..........'' 4 = Inr (4, ''targ......'') \<and>
   fs_readlink with_link ''/l'' ''..........'' 10 = Inr (6, ''target....'') \<and>
   fs_readlink with_b ''/b'' ''..........'' 10 = Inr (- EINVAL, ''..........'')"
proof -
  have l: "path_2_inum with_link ''/l'' = Inr 2" "(0::int) \<le> 2"
    "inode_map with_link (word_of_int 2) = Some 2" "heap with_link 2 = Some link_ok"
    by (simp_all add: path_defs errno_defs with_link_def link_ok_def state_defs)
  have b: "path_2_inum with_b ''/b'' = Inr 2" "(0::int) \<le> 2"
    "inode_map with_b (word_of_int 2) = Some 2" "heap with_b 2 = Some file_b"
    by (simp_all add: path_defs errno_defs with_b_def file_b_def state_defs)
  have n4: "4 \<le> length ''..........''" and n10: "10 \<le> length ''..........''"
    by simp_all
  from readlink_copies [OF l n4, of "''target''"] readlink_copies [OF l n10, of "''target''"]
    readlink_copies [OF b n10]
  show ?thesis
    by (simp add: link_ok_def file_b_def)
qed

subsection \<open>Times\<close>

text \<open>
  Claim C9 (\<^verbatim>\<open>utimens\<close> with a null \<^verbatim>\<open>tv\<close>). Let the path resolve to an inode, and let
  the staging buffers be within the limits of \<^verbatim>\<open>maybe_write\<close>, as they are after mount
  and whenever an operation has returned. Then \<^verbatim>\<open>fs_utimens(path, NULL)\<close> returns 0, the inode has the
  time of the clock, its address is in \<^verbatim>\<open>dirty_inodes\<close>, and a \<^verbatim>\<open>tv\<close> whose
  \<^verbatim>\<open>tv[1].tv_nsec\<close> is \<^verbatim>\<open>UTIME_NOW\<close> gives the same result.
\<close>

theorem utimens_null:
  assumes "path_2_inum s path = Inr i" and "0 \<le> i"
    and "inode_map s (word_of_int i) = Some p" and "heap s p = Some obj"
    and "within_limits s"
  shows "fs_utimens s path None =
           Inr (0, (put_obj p (obj\<lparr>mtime := clock s\<rparr>) s)
                     \<lparr>dirty_inodes := insert_dirty p (dirty_inodes s)\<rparr>) \<and>
         p \<in> set (insert_dirty p (dirty_inodes s)) \<and>
         fs_utimens s path (Some (tv0, tv1\<lparr>tv_nsec := UTIME_NOW\<rparr>)) = fs_utimens s path None"
  using assms
  by (simp add: fs_utimens_def obj_at_def maybe_write_def put_obj_def set_insert_dirty
      within_limits_def)

theorem utimens_null_witness:
  "fs_utimens with_b ''/b'' None
     = Inr (0, (put_obj 2 (file_b\<lparr>mtime := t1\<rparr>) with_b)\<lparr>dirty_inodes := [2]\<rparr>) \<and>
   fs_utimens with_b ''/b'' (Some (t0, \<lparr>tv_sec = 7, tv_nsec = UTIME_NOW\<rparr>))
     = fs_utimens with_b ''/b'' None"
proof -
  have b: "path_2_inum with_b ''/b'' = Inr 2" "(0::int) \<le> 2"
    "inode_map with_b (word_of_int 2) = Some 2" "heap with_b 2 = Some file_b"
    "within_limits with_b"
    by (simp_all add: path_defs errno_defs with_b_def file_b_def state_defs within_limits_def
        meta_log_len_def data_log_len_def)
  from utimens_null [OF b, of t0 "\<lparr>tv_sec = 7, tv_nsec = 0\<rparr>"]
  show ?thesis
    by (simp add: with_b_def state_defs insert_dirty_def)
qed

end
